theory Spec2Isabelle
  imports Complex_Main
begin

section \<open>Cost model of the usage tracker\<close>

text \<open>
  JavaScript numbers are modelled as real numbers (no rounding error, no NaN); an optional
  parameter \<open>x?: number\<close> is a \<open>real option\<close>, \<open>None\<close> standing for \<open>undefined\<close>.
  A condition \<open>if (x)\<close> on such a parameter holds when the number is present and not 0.
\<close>

definition truthy_num :: "real option \<Rightarrow> bool" where
  "truthy_num x = (case x of None \<Rightarrow> False | Some v \<Rightarrow> v \<noteq> 0)"

definition num :: "real option \<Rightarrow> real" where
  "num x = (case x of None \<Rightarrow> 0 | Some v \<Rightarrow> v)"

text \<open>
  An entry of \<open>COST_RATES\<close> has one of two shapes: \<open>{perMinute}\<close>, or \<open>{inputPer1K}\<close> with
  an optional \<open>outputPer1K\<close>.
\<close>

datatype rates = PerMinute real | Per1K real "real option"

definition COST_RATES :: "string \<Rightarrow> rates option" where
  "COST_RATES model =
     (if model = ''whisper-1'' then Some (PerMinute (6 / 1000))
      else if model = ''gpt-4o-mini'' then Some (Per1K (15 / 100000) (Some (6 / 10000)))
      else if model = ''text-embedding-3-small'' then Some (Per1K (2 / 100000) None)
      else if model = ''text-embedding-3-large'' then Some (Per1K (13 / 100000) None)
      else None)"

fun perMinute :: "rates \<Rightarrow> real option" where
  "perMinute (PerMinute r) = Some r"
| "perMinute (Per1K i out) = None"

fun inputPer1K :: "rates \<Rightarrow> real option" where
  "inputPer1K (PerMinute r) = None"
| "inputPer1K (Per1K i out) = Some i"

fun outputPer1K :: "rates \<Rightarrow> real option" where
  "outputPer1K (PerMinute r) = None"
| "outputPer1K (Per1K i out) = out"

text \<open>\<open>APIUsageTracker.calculateCost\<close>, branch by branch.\<close>

definition calculateCost ::
  "string \<Rightarrow> string \<Rightarrow> real option \<Rightarrow> real option \<Rightarrow> real option \<Rightarrow> real" where
  "calculateCost type model inputTokens outputTokens inputMinutes =
     (case COST_RATES model of
        None \<Rightarrow> 0
      | Some rates \<Rightarrow>
          if type = ''transcription'' \<and> truthy_num inputMinutes \<and> perMinute rates \<noteq> None
          then num inputMinutes * the (perMinute rates)
          else if (type = ''completion'' \<or> type = ''embedding'') \<and> inputPer1K rates \<noteq> None
          then (let cost0 = 0;
                    cost1 = (if truthy_num inputTokens
                             then cost0 + (num inputTokens / 1000) * the (inputPer1K rates)
                             else cost0);
                    cost2 = (if truthy_num outputTokens \<and> outputPer1K rates \<noteq> None
                             then cost1 + (num outputTokens / 1000) * the (outputPer1K rates)
                             else cost1)
                in cost2)
          else 0)"

text \<open>
  The cost as the specification words it: quantity / unit * rate, one component for a
  per-minute model asked for a transcription, the input and the output component summed
  for a per-1000-token model asked for a completion or an embedding; an absent quantity
  and an absent rate contribute nothing.
\<close>

definition estimateCost_spec ::
  "string \<Rightarrow> string \<Rightarrow> real option \<Rightarrow> real option \<Rightarrow> real option \<Rightarrow> real" where
  "estimateCost_spec kind modelId inputTokens outputTokens inputMinutes =
     (case COST_RATES modelId of
        None \<Rightarrow> 0
      | Some (PerMinute r) \<Rightarrow>
          if kind = ''transcription'' then num inputMinutes / 1 * r else 0
      | Some (Per1K ri ro) \<Rightarrow>
          if kind = ''completion'' \<or> kind = ''embedding''
          then num inputTokens / 1000 * ri
               + (case ro of None \<Rightarrow> 0 | Some r \<Rightarrow> num outputTokens / 1000 * r)
          else 0)"

section \<open>Persistent state: the two tables and the observable effects\<close>

text \<open>
  The database behind Prisma is modelled as two tables that answer every query: the
  \<open>catch\<close> blocks of \<open>get\<close>, \<open>set\<close>, \<open>delete\<close>, \<open>trackUsage\<close> and of the statistics,
  which only fire when a query itself fails, have no branch here. Times are milliseconds
  since the epoch, and a call reads the clock once (\<open>now\<close>). A value caught by
  \<open>catch (error)\<close> is either an \<open>Error\<close> carrying its message or some other thrown value.
\<close>

type_synonym time = int

datatype thrown = Error string | NonError

definition message :: "thrown \<Rightarrow> string" where
  \<comment> \<open>\<open>error instanceof Error ? error.message : 'Unknown error'\<close>\<close>
  "message e = (case e of Error m \<Rightarrow> m | NonError \<Rightarrow> ''Unknown error'')"

definition failed :: "string \<Rightarrow> thrown \<Rightarrow> thrown" where
  \<comment> \<open>\<open>new Error(`<label>: ${...}`)\<close>\<close>
  "failed label e = Error (label @ '': '' @ message e)"

text \<open>
  The rows of the Prisma models \<open>AICache\<close> and \<open>APIUsage\<close> (the generated \<open>id\<close> is left
  out; the columns \<open>type\<close> and \<open>model\<close> carry a prefix). The payload type \<open>'p\<close> is the
  type \<open>T\<close> of \<open>get<T>\<close> and \<open>set<T>\<close>.
\<close>

record 'p AICache =
  c_type :: string
  inputHash :: string
  response :: 'p
  c_model :: string
  inputSize :: "int option"
  outputSize :: "int option"
  createdAt :: time
  updatedAt :: time
  expiresAt :: "time option"
  hitCount :: int

record APIUsage =
  u_type :: string
  u_model :: string
  inputTokens :: "real option"
  outputTokens :: "real option"
  inputMinutes :: "real option"
  estimatedCost :: "real option"
  cached :: bool
  timestamp :: time
  videoId :: "string option"
  userId :: "string option"

text \<open>
  Every call that leaves the process is appended to a trace, in the order in which the
  code awaits it: the queries on the cache table, the insert into the usage table and the
  request to the AI provider.
\<close>

datatype call =
    TranscriptionsCreate string string
  | ChatCompletionsCreate string
  | EmbeddingsCreate string "string list"

datatype event =
    CacheFind string
  | CacheDelete string
  | CacheUpdate string
  | CacheUpsert string
  | UsageCreate bool
  | ProviderCall call

record 'p world =
  aICache :: "'p AICache list"
  aPIUsage :: "APIUsage list"
  trace :: "event list"

definition emit :: "event \<Rightarrow> 'p world \<Rightarrow> 'p world" where
  "emit ev w = w\<lparr>trace := trace w @ [ev]\<rparr>"

section \<open>The cache service\<close>

text \<open>
  The hash functions of \<open>crypto\<close> and \<open>JSON.stringify\<close> are parameters of the model.
\<close>

record 'p deps =
  md5 :: "string \<Rightarrow> string"
  sha256 :: "string \<Rightarrow> string"
  stringify :: "'p \<Rightarrow> string"

definition generateHash :: "(string \<Rightarrow> string) \<Rightarrow> string \<Rightarrow> string \<Rightarrow> string" where
  "generateHash sha content model = sha (model @ '':'' @ content)"

definition findUnique :: "string \<Rightarrow> 'p AICache list \<Rightarrow> 'p AICache option" where
  "findUnique hash rows = find (\<lambda>c. inputHash c = hash) rows"

definition delete :: "string \<Rightarrow> 'p world \<Rightarrow> 'p world" where
  "delete hash w =
     emit (CacheDelete hash) (w\<lparr>aICache := filter (\<lambda>c. inputHash c \<noteq> hash) (aICache w)\<rparr>)"

definition expired :: "time \<Rightarrow> 'p AICache \<Rightarrow> bool" where
  \<comment> \<open>\<open>cached.expiresAt && cached.expiresAt < new Date()\<close>\<close>
  "expired now c = (case expiresAt c of None \<Rightarrow> False | Some e \<Rightarrow> e < now)"

definition incrementHit :: "time \<Rightarrow> string \<Rightarrow> 'p world \<Rightarrow> 'p world" where
  \<comment> \<open>\<open>update({where: {inputHash}, data: {hitCount: {increment: 1}}})\<close>; \<open>@updatedAt\<close>\<close>
  "incrementHit now hash w =
     emit (CacheUpdate hash)
       (w\<lparr>aICache := map (\<lambda>c. if inputHash c = hash
                                 then c\<lparr>hitCount := hitCount c + 1, updatedAt := now\<rparr> else c)
                          (aICache w)\<rparr>)"

definition get ::
  "(string \<Rightarrow> string) \<Rightarrow> time \<Rightarrow> string \<Rightarrow> string \<Rightarrow> string \<Rightarrow> 'p world
     \<Rightarrow> 'p option \<times> 'p world" where
  "get sha now type content model w =
     (let hash = generateHash sha content model;
          w1 = emit (CacheFind hash) w
      in case findUnique hash (aICache w1) of
           None \<Rightarrow> (None, w1)
         | Some entry \<Rightarrow>
             if expired now entry then (None, delete hash w1)
             else (Some (response entry), incrementHit now hash w1))"

text \<open>
  The calls that \<open>get\<close> makes on a state, and whether a state holds an entry under a
  hash that has not expired.
\<close>

definition lookupEvents :: "(string \<Rightarrow> string) \<Rightarrow> time \<Rightarrow> string \<Rightarrow> string \<Rightarrow> 'p world \<Rightarrow> event list" where
  "lookupEvents sha now content model w =
     (let hash = generateHash sha content model
      in case findUnique hash (aICache w) of
           None \<Rightarrow> [CacheFind hash]
         | Some entry \<Rightarrow>
             if expired now entry then [CacheFind hash, CacheDelete hash]
             else [CacheFind hash, CacheUpdate hash])"

definition cachedLive :: "time \<Rightarrow> string \<Rightarrow> 'p world \<Rightarrow> bool" where
  "cachedLive now hash w =
     (case findUnique hash (aICache w) of None \<Rightarrow> False | Some entry \<Rightarrow> \<not> expired now entry)"

text \<open>
  \<open>storeEntry\<close> is the effect of the \<open>prisma.aICache.upsert\<close> of \<open>set\<close> when the database
  takes it: a row with the hash is updated, otherwise one is created with the defaults of
  the schema (\<open>hitCount\<close> 0, both dates now). Prisma leaves a column unchanged when the
  value given for it in \<open>update\<close> is \<open>undefined\<close>, which is what an omitted \<open>inputSize\<close>
  or \<open>outputSize\<close> is; \<open>expiresAt\<close> is \<open>null\<close> when absent and is written.
  \<open>expiresAfter\<close> is the number \<open>Date.now() + expirationDays * 24 * 60 * 60 * 1000\<close>, the
  time value of the expiry date when that date is valid.
\<close>

definition keep :: "'a option \<Rightarrow> 'a option \<Rightarrow> 'a option" where
  "keep new old = (case new of None \<Rightarrow> old | Some v \<Rightarrow> Some v)"

definition upsert ::
  "string \<Rightarrow> 'p AICache \<Rightarrow> ('p AICache \<Rightarrow> 'p AICache) \<Rightarrow> 'p AICache list \<Rightarrow> 'p AICache list" where
  "upsert hash create update rows =
     (case findUnique hash rows of
        None \<Rightarrow> rows @ [create]
      | Some entry \<Rightarrow> map (\<lambda>c. if inputHash c = hash then update c else c) rows)"

definition expiresAfter :: "time \<Rightarrow> int option \<Rightarrow> time option" where
  \<comment> \<open>\<open>expirationDays ? Date.now() + expirationDays * 24 * 60 * 60 * 1000 : null\<close>\<close>
  "expiresAfter now expirationDays =
     (case expirationDays of
        None \<Rightarrow> None
      | Some d \<Rightarrow> if d \<noteq> 0 then Some (now + d * 24 * 60 * 60 * 1000) else None)"

definition storeEntry ::
  "(string \<Rightarrow> string) \<Rightarrow> time \<Rightarrow> string \<Rightarrow> string \<Rightarrow> string \<Rightarrow> 'p \<Rightarrow> int option
     \<Rightarrow> int option \<Rightarrow> int option \<Rightarrow> 'p world \<Rightarrow> 'p world" where
  "storeEntry sha now type content model resp expirationDays inSize outSize w =
     (let hash = generateHash sha content model;
          expires = expiresAfter now expirationDays
      in emit (CacheUpsert hash)
           (w\<lparr>aICache :=
                upsert hash
                  \<lparr>c_type = type, inputHash = hash, response = resp, c_model = model,
                   inputSize = inSize, outputSize = outSize, createdAt = now,
                   updatedAt = now, expiresAt = expires, hitCount = 0\<rparr>
                  (\<lambda>c. c\<lparr>response := resp, inputSize := keep inSize (inputSize c),
                          outputSize := keep outSize (outputSize c), expiresAt := expires,
                          updatedAt := now\<rparr>)
                  (aICache w)\<rparr>))"

text \<open>
  \<open>set\<close> itself. \<open>new Date(t)\<close> is an Invalid Date when \<open>t\<close> is more than 8.64e15 ms from
  the epoch. Prisma rejects an upsert whose \<open>expiresAt\<close> is an Invalid Date or whose size
  does not fit the 32-bit \<open>Int\<close> column; \<open>accepts\<close>, a parameter, is the verdict of the
  database on the remaining values of the row (the \<open>Json\<close> payload, the text columns, the
  range of its timestamps). A rejected upsert throws, the \<open>catch\<close> of \<open>set\<close> logs the error,
  and nothing is stored.
\<close>

datatype date = Date time | InvalidDate

definition validTime :: "int \<Rightarrow> bool" where
  "validTime t = (- 8640000000000000 \<le> t \<and> t \<le> 8640000000000000)"

definition newDate :: "int \<Rightarrow> date" where
  "newDate t = (if validTime t then Date t else InvalidDate)"

definition expiry :: "time \<Rightarrow> int option \<Rightarrow> date option" where
  \<comment> \<open>\<open>expirationDays ? new Date(Date.now() + expirationDays * 24 * 60 * 60 * 1000) : null\<close>\<close>
  "expiry now expirationDays =
     (case expiresAfter now expirationDays of None \<Rightarrow> None | Some t \<Rightarrow> Some (newDate t))"

definition fitsInt :: "int option \<Rightarrow> bool" where
  "fitsInt v = (case v of None \<Rightarrow> True | Some n \<Rightarrow> - 2147483648 \<le> n \<and> n \<le> 2147483647)"

definition rejected ::
  "('p AICache \<Rightarrow> bool) \<Rightarrow> (string \<Rightarrow> string) \<Rightarrow> time \<Rightarrow> string \<Rightarrow> string \<Rightarrow> string \<Rightarrow> 'p
     \<Rightarrow> int option \<Rightarrow> int option \<Rightarrow> int option \<Rightarrow> bool" where
  "rejected accepts sha now type content model resp expirationDays inSize outSize =
     (expiry now expirationDays = Some InvalidDate
      \<or> \<not> fitsInt inSize \<or> \<not> fitsInt outSize
      \<or> \<not> accepts \<lparr>c_type = type, inputHash = generateHash sha content model,
                     response = resp, c_model = model, inputSize = inSize,
                     outputSize = outSize, createdAt = now, updatedAt = now,
                     expiresAt = expiresAfter now expirationDays, hitCount = 0\<rparr>)"

definition set' ::
  "('p AICache \<Rightarrow> bool) \<Rightarrow> (string \<Rightarrow> string) \<Rightarrow> time \<Rightarrow> string \<Rightarrow> string \<Rightarrow> string \<Rightarrow> 'p
     \<Rightarrow> int option \<Rightarrow> int option \<Rightarrow> int option \<Rightarrow> 'p world \<Rightarrow> 'p world" where
  "set' accepts sha now type content model resp expirationDays inSize outSize w =
     (if rejected accepts sha now type content model resp expirationDays inSize outSize
      then w
      else storeEntry sha now type content model resp expirationDays inSize outSize w)"

text \<open>
  \<open>getStats\<close>, its fields \<open>total\<close> and \<open>hitRate\<close> (\<open>byType\<close> and \<open>estimatedSavings\<close> do not
  enter the hit rate and are left out).
\<close>

record CacheStats =
  total :: nat
  hitRate :: real

definition getStats :: "'p world \<Rightarrow> CacheStats" where
  "getStats w =
     (let totalUsage_count = int (length (aPIUsage w));
          cacheUsage_sum_hitCount = sum_list (map hitCount (aICache w));
          totalRequests = totalUsage_count + cacheUsage_sum_hitCount;
          rate = (if totalRequests > 0
                  then (real_of_int cacheUsage_sum_hitCount / real_of_int totalRequests) * 100
                  else 0)
      in \<lparr>total = length (aICache w), hitRate = rate\<rparr>)"

section \<open>The usage tracker\<close>

definition trackUsage ::
  "time \<Rightarrow> string \<Rightarrow> string \<Rightarrow> real option \<Rightarrow> real option \<Rightarrow> real option \<Rightarrow> bool option
     \<Rightarrow> string option \<Rightarrow> string option \<Rightarrow> 'p world \<Rightarrow> 'p world" where
  "trackUsage now type model inTokens outTokens inMinutes isCached video user w =
     (let cost = calculateCost type model inTokens outTokens inMinutes;
          flag = (case isCached of None \<Rightarrow> False | Some b \<Rightarrow> b)
      in emit (UsageCreate flag)
           (w\<lparr>aPIUsage := aPIUsage w @
                [\<lparr>u_type = type, u_model = model, inputTokens = inTokens,
                  outputTokens = outTokens, inputMinutes = inMinutes,
                  estimatedCost = Some cost, cached = flag, timestamp = now,
                  videoId = video, userId = user\<rparr>]\<rparr>))"

text \<open>
  \<open>getUsageStats\<close>: the \<open>where\<close> clause built from the optional arguments, then the
  aggregates (\<open>byType\<close> and \<open>byModel\<close>, which do not enter the hit rate, are left out).
  \<open>if (userId)\<close> does not filter on an empty string. \<open>cachedRequests\<close> is the count of
  the group with \<open>cached = true\<close> of the \<open>groupBy\<close>, 0 when there is no such group.
\<close>

definition whereClause ::
  "time option \<Rightarrow> time option \<Rightarrow> string option \<Rightarrow> APIUsage \<Rightarrow> bool" where
  "whereClause startDate endDate user r =
     ((case startDate of None \<Rightarrow> True | Some s \<Rightarrow> s \<le> timestamp r)
      \<and> (case endDate of None \<Rightarrow> True | Some e \<Rightarrow> timestamp r \<le> e)
      \<and> (case user of None \<Rightarrow> True
          | Some u \<Rightarrow> if u = [] then True else userId r = Some u))"

record UsageStats =
  totalCost :: real
  totalRequests :: nat
  cacheHitRate :: real
  periodSavings :: real

definition estimateCachedOriginalCost :: "nat \<Rightarrow> real" where
  "estimateCachedOriginalCost cachedRequests = real cachedRequests * (1 / 100)"

definition getUsageStats ::
  "time option \<Rightarrow> time option \<Rightarrow> string option \<Rightarrow> APIUsage list \<Rightarrow> UsageStats" where
  "getUsageStats startDate endDate user ledger =
     (let rows = filter (whereClause startDate endDate user) ledger;
          requests = length rows;
          cachedRequests = length (filter cached rows);
          rate = (if requests > 0 then (real cachedRequests / real requests) * 100 else 0)
      in \<lparr>totalCost = sum_list (map (\<lambda>r. num (estimatedCost r)) rows),
          totalRequests = requests,
          cacheHitRate = rate,
          periodSavings = estimateCachedOriginalCost cachedRequests\<rparr>)"

section \<open>The cached AI services\<close>

text \<open>
  The model names are those of \<open>AI_CONFIG\<close>: \<open>whisper-1\<close> for transcription (with the
  default language \<open>en\<close>), \<open>gpt-4o-mini\<close> for highlights and completion,
  \<open>text-embedding-3-small\<close> for embeddings. The provider calls are functions given to
  each service, returning what the call resolved to or what it threw. The services call
  \<open>set\<close> with what the provider returned, a time to live of 60, 90 or 180 days from the
  clock and the lengths of JavaScript strings and buffers as sizes, an upsert that is
  within the ranges of the columns: they are written with \<open>storeEntry\<close>. A transcription
  or a list of embeddings read from the cache always passes \<open>if (cached)\<close>; the payloads
  of the highlights and topics services are stored from values of type \<open>any\<close> and are
  tested with \<open>truthy\<close>.

  Values of type \<open>any\<close> (what \<open>JSON.parse\<close> returns) are JSON values. \<open>truthy\<close> is the
  test of \<open>if (v)\<close> and \<open>v || d\<close>; \<open>getProp v k\<close> is the property access \<open>v.k\<close> for the
  keys \<open>highlights\<close> and \<open>topics\<close>, which throws a \<open>TypeError\<close> on \<open>null\<close> and is
  \<open>undefined\<close> on a value that is not an object with that key.
\<close>

datatype json =
    JNull
  | JBool bool
  | JNum real
  | JStr string
  | JArr "json list"
  | JObj "(string \<times> json) list"

definition truthy :: "json \<Rightarrow> bool" where
  "truthy v =
     (case v of JNull \<Rightarrow> False | JBool b \<Rightarrow> b | JNum x \<Rightarrow> x \<noteq> 0 | JStr s \<Rightarrow> s \<noteq> []
      | JArr xs \<Rightarrow> True | JObj kvs \<Rightarrow> True)"

definition isArray :: "json \<Rightarrow> bool" where
  "isArray v = (case v of JArr xs \<Rightarrow> True | _ \<Rightarrow> False)"

definition getProp :: "json \<Rightarrow> string \<Rightarrow> thrown + json option" where
  "getProp v k =
     (case v of
        JNull \<Rightarrow> Inl (Error (''Cannot read properties of null (reading '' @ k @ '')''))
      | JObj kvs \<Rightarrow> Inr (map_of kvs k)
      | _ \<Rightarrow> Inr None)"

definition orElse :: "string option \<Rightarrow> string \<Rightarrow> string" where
  \<comment> \<open>\<open>s || d\<close> on an optional string: the default replaces \<open>undefined\<close>, \<open>null\<close> and \<open>''\<close>\<close>
  "orElse s d = (case s of None \<Rightarrow> d | Some v \<Rightarrow> if v = [] then d else v)"

text \<open>
  What the code reads of a chat completion: the \<open>message.content\<close> of each choice and the
  optional \<open>usage\<close> with its \<open>prompt_tokens\<close> and \<open>completion_tokens\<close>.
\<close>

record ChatCompletion =
  choices :: "string option list"
  usage :: "(real \<times> real) option"

definition prompt_tokens :: "ChatCompletion \<Rightarrow> real" where
  \<comment> \<open>\<open>response.usage?.prompt_tokens || 0\<close>\<close>
  "prompt_tokens r = (case usage r of None \<Rightarrow> 0 | Some (p, c) \<Rightarrow> p)"

definition completion_tokens :: "ChatCompletion \<Rightarrow> real" where
  \<comment> \<open>\<open>response.usage?.completion_tokens || 0\<close>\<close>
  "completion_tokens r = (case usage r of None \<Rightarrow> 0 | Some (p, c) \<Rightarrow> c)"

definition firstContent :: "ChatCompletion \<Rightarrow> thrown + string option" where
  \<comment> \<open>\<open>response.choices[0].message.content\<close>\<close>
  "firstContent r =
     (case choices r of
        [] \<Rightarrow> Inl (Error ''Cannot read properties of undefined (reading message)'')
      | content # rest \<Rightarrow> Inr content)"

definition estimatedInputTokens :: "string \<Rightarrow> real" where
  \<comment> \<open>\<open>Math.ceil(transcript.length / 3.5)\<close>\<close>
  "estimatedInputTokens transcript = of_int \<lceil>real (length transcript) / (35 / 10)\<rceil>"

definition truthyHit :: "json option \<Rightarrow> json option" where
  \<comment> \<open>\<open>if (cached)\<close> on what \<open>get\<close> returned\<close>
  "truthyHit hit = (case hit of None \<Rightarrow> None | Some c \<Rightarrow> if truthy c then Some c else None)"

subsection \<open>Transcription\<close>

record TranscriptionSegment =
  s_id :: int
  s_seek :: int
  s_start :: real
  s_end :: real
  s_text :: string
  s_tokens :: "int list"
  s_temperature :: real
  s_avg_logprob :: real
  s_compression_ratio :: real
  s_no_speech_prob :: real

record TranscriptionResponse =
  t_task :: string
  t_language :: string
  duration :: real
  t_text :: string
  t_segments :: "TranscriptionSegment list"

definition transcriptionCacheKey :: "(string \<Rightarrow> string) \<Rightarrow> string \<Rightarrow> string option \<Rightarrow> string" where
  \<comment> \<open>\<open>`${fileHash}:${language || 'en'}`\<close> with \<open>fileHash\<close> the MD5 of the file\<close>
  "transcriptionCacheKey md fileBuffer language = md fileBuffer @ '':'' @ orElse language ''en''"

text \<open>
  \<open>readFile\<close> gives the bytes of a path or the error of \<open>fs.access\<close>/\<open>fs.readFile\<close>;
  \<open>create\<close> is \<open>openai.audio.transcriptions.create\<close> as a function of the file, its path
  and the language. One clock value \<open>now\<close> serves a whole invocation.
\<close>

definition transcribeAudioCached ::
  "TranscriptionResponse deps \<Rightarrow> (string \<Rightarrow> thrown + string)
     \<Rightarrow> (string \<Rightarrow> string \<Rightarrow> string \<Rightarrow> thrown + TranscriptionResponse)
     \<Rightarrow> time \<Rightarrow> string \<Rightarrow> string option \<Rightarrow> string option \<Rightarrow> string option
     \<Rightarrow> TranscriptionResponse world
     \<Rightarrow> (thrown + TranscriptionResponse) \<times> TranscriptionResponse world" where
  "transcribeAudioCached d readFile create now audioPath language video user w =
     (case readFile audioPath of
        Inl e \<Rightarrow> (Inl (failed ''Transcription failed'' e), w)
      | Inr fileBuffer \<Rightarrow>
          (let cacheKey = transcriptionCacheKey (md5 d) fileBuffer language;
               model = ''whisper-1'';
               (hit, w1) = get (sha256 d) now ''transcription'' cacheKey model w
           in case hit of
                Some c \<Rightarrow>
                  (Inr c, trackUsage now ''transcription'' model None None (Some (duration c))
                            (Some True) video user w1)
              | None \<Rightarrow>
                  (let w2 = emit (ProviderCall (TranscriptionsCreate model (orElse language ''en''))) w1
                   in case create fileBuffer audioPath (orElse language ''en'') of
                        Inl e \<Rightarrow> (Inl (failed ''Transcription failed'' e), w2)
                      | Inr result \<Rightarrow>
                          (let w3 = trackUsage now ''transcription'' model None None
                                      (Some (duration result)) (Some False) video user w2;
                               w4 = storeEntry (sha256 d) now ''transcription'' cacheKey model result
                                      (Some 60) (Some (int (length fileBuffer)))
                                      (Some (int (length (stringify d result)))) w3
                           in (Inr result, w4)))))"

subsection \<open>Highlights\<close>

record Segment =
  seg_text :: string
  startTime :: real
  endTime :: real

definition validateHighlights :: "(string \<Rightarrow> thrown + json) \<Rightarrow> ChatCompletion \<Rightarrow> thrown + json" where
  \<comment> \<open>from \<open>JSON.parse(response.choices[0].message.content || '{}')\<close> to the validation\<close>
  "validateHighlights parse r =
     (case firstContent r of
        Inl e \<Rightarrow> Inl e
      | Inr content \<Rightarrow>
          (case parse (orElse content ''{}'') of
             Inl e \<Rightarrow> Inl e
           | Inr result \<Rightarrow>
               (case getProp result ''highlights'' of
                  Inl e \<Rightarrow> Inl e
                | Inr None \<Rightarrow> Inl (Error ''Invalid highlights response format'')
                | Inr (Some h) \<Rightarrow>
                    if \<not> truthy h \<or> \<not> isArray h
                    then Inl (Error ''Invalid highlights response format'')
                    else Inr result)))"

definition generateHighlightsCached ::
  "json deps \<Rightarrow> (Segment list \<Rightarrow> string) \<Rightarrow> (string \<Rightarrow> thrown + json)
     \<Rightarrow> (Segment list \<Rightarrow> thrown + ChatCompletion)
     \<Rightarrow> time \<Rightarrow> string \<Rightarrow> Segment list \<Rightarrow> string option \<Rightarrow> string option
     \<Rightarrow> json world \<Rightarrow> (thrown + json) \<times> json world" where
  "generateHighlightsCached d stringify_segments parse create now transcript segments video user w =
     (let model = ''gpt-4o-mini'';
          cacheKey = md5 d (transcript @ '':'' @ stringify_segments segments);
          (hit, w1) = get (sha256 d) now ''highlights'' cacheKey model w
      in case truthyHit hit of
           Some c \<Rightarrow>
             (Inr c, trackUsage now ''completion'' model (Some (estimatedInputTokens transcript))
                       (Some 500) None (Some True) video user w1)
         | None \<Rightarrow>
             (let w2 = emit (ProviderCall (ChatCompletionsCreate model)) w1
              in case create segments of
                   Inl e \<Rightarrow> (Inl (failed ''Highlight generation failed'' e), w2)
                 | Inr r \<Rightarrow>
                     (case validateHighlights parse r of
                        Inl e \<Rightarrow> (Inl (failed ''Highlight generation failed'' e), w2)
                      | Inr result \<Rightarrow>
                          (let w3 = trackUsage now ''completion'' model (Some (prompt_tokens r))
                                      (Some (completion_tokens r)) None (Some False) video user w2;
                               w4 = storeEntry (sha256 d) now ''highlights'' cacheKey model result
                                      (Some 90) (Some (int (length transcript)))
                                      (Some (int (length (stringify d result)))) w3
                           in (Inr result, w4)))))"

subsection \<open>Summary\<close>

definition truthyText :: "string option \<Rightarrow> string option" where
  \<comment> \<open>\<open>if (cached)\<close> on a cached string: the empty string does not pass\<close>
  "truthyText hit = (case hit of None \<Rightarrow> None | Some s \<Rightarrow> if s = [] then None else Some s)"

definition generateSummaryCached ::
  "string deps \<Rightarrow> (string \<Rightarrow> thrown + ChatCompletion)
     \<Rightarrow> time \<Rightarrow> string \<Rightarrow> string option \<Rightarrow> string option
     \<Rightarrow> string world \<Rightarrow> (thrown + string) \<times> string world" where
  "generateSummaryCached d create now transcript video user w =
     (let model = ''gpt-4o-mini'';
          cacheKey = md5 d transcript;
          (hit, w1) = get (sha256 d) now ''summary'' cacheKey model w
      in case truthyText hit of
           Some c \<Rightarrow>
             (Inr c, trackUsage now ''completion'' model (Some (estimatedInputTokens transcript))
                       (Some 100) None (Some True) video user w1)
         | None \<Rightarrow>
             (let w2 = emit (ProviderCall (ChatCompletionsCreate model)) w1
              in case create transcript of
                   Inl e \<Rightarrow> (Inl (failed ''Summary generation failed'' e), w2)
                 | Inr r \<Rightarrow>
                     (case firstContent r of
                        Inl e \<Rightarrow> (Inl (failed ''Summary generation failed'' e), w2)
                      | Inr content \<Rightarrow>
                          (let summary = orElse content [];
                               w3 = trackUsage now ''completion'' model (Some (prompt_tokens r))
                                      (Some (completion_tokens r)) None (Some False) video user w2;
                               w4 = storeEntry (sha256 d) now ''summary'' cacheKey model summary
                                      (Some 60) (Some (int (length transcript)))
                                      (Some (int (length summary))) w3
                           in (Inr summary, w4)))))"

subsection \<open>Key topics\<close>

definition parseTopics :: "(string \<Rightarrow> thrown + json) \<Rightarrow> ChatCompletion \<Rightarrow> thrown + json" where
  \<comment> \<open>\<open>JSON.parse(content || '{"topics": []}')\<close>, then \<open>result.topics || []\<close>\<close>
  "parseTopics parse r =
     (case firstContent r of
        Inl e \<Rightarrow> Inl e
      | Inr content \<Rightarrow>
          (case parse (orElse content (''{'' @ [CHR 0x22] @ ''topics'' @ [CHR 0x22] @ '': []}'')) of
             Inl e \<Rightarrow> Inl e
           | Inr result \<Rightarrow>
               (case getProp result ''topics'' of
                  Inl e \<Rightarrow> Inl e
                | Inr None \<Rightarrow> Inr (JArr [])
                | Inr (Some t) \<Rightarrow> Inr (if truthy t then t else JArr []))))"

text \<open>
  The \<open>catch\<close> of \<open>extractKeyTopicsCached\<close> returns \<open>[]\<close>; the result type keeps the error
  summand of the sibling services.
\<close>

definition extractKeyTopicsCached ::
  "json deps \<Rightarrow> (string \<Rightarrow> thrown + json) \<Rightarrow> (string \<Rightarrow> thrown + ChatCompletion)
     \<Rightarrow> time \<Rightarrow> string \<Rightarrow> string option \<Rightarrow> string option
     \<Rightarrow> json world \<Rightarrow> (thrown + json) \<times> json world" where
  "extractKeyTopicsCached d parse create now transcript video user w =
     (let model = ''gpt-4o-mini'';
          cacheKey = md5 d (''topics:'' @ transcript);
          (hit, w1) = get (sha256 d) now ''topics'' cacheKey model w
      in case truthyHit hit of
           Some c \<Rightarrow>
             (Inr c, trackUsage now ''completion'' model (Some (estimatedInputTokens transcript))
                       (Some 50) None (Some True) video user w1)
         | None \<Rightarrow>
             (let w2 = emit (ProviderCall (ChatCompletionsCreate model)) w1
              in case create transcript of
                   Inl e \<Rightarrow> (Inr (JArr []), w2)
                 | Inr r \<Rightarrow>
                     (case parseTopics parse r of
                        Inl e \<Rightarrow> (Inr (JArr []), w2)
                      | Inr topics \<Rightarrow>
                          (let w3 = trackUsage now ''completion'' model (Some (prompt_tokens r))
                                      (Some (completion_tokens r)) None (Some False) video user w2;
                               w4 = storeEntry (sha256 d) now ''topics'' cacheKey model topics
                                      (Some 60) (Some (int (length transcript)))
                                      (Some (int (length (stringify d topics)))) w3
                           in (Inr topics, w4)))))"

subsection \<open>Embeddings\<close>

record CreateEmbeddingResponse =
  data :: "real list list"
  usage_prompt_tokens :: "real option"

definition batchSize :: nat where
  "batchSize = 100"

definition slice :: "'a list \<Rightarrow> nat \<Rightarrow> nat \<Rightarrow> 'a list" where
  \<comment> \<open>\<open>xs.slice(a, b)\<close> for \<open>0 \<le> a \<le> b\<close>\<close>
  "slice xs a b = take (b - a) (drop a xs)"

fun join :: "string \<Rightarrow> string list \<Rightarrow> string" where
  "join sep [] = []"
| "join sep [x] = x"
| "join sep (x # y # ys) = x @ sep @ join sep (y # ys)"

definition batchKey :: "(string \<Rightarrow> string) \<Rightarrow> (string list \<Rightarrow> string) \<Rightarrow> string list \<Rightarrow> string" where
  \<comment> \<open>the MD5 of \<open>`${JSON.stringify(batch)}:${model}`\<close>\<close>
  "batchKey md stringify_texts batch = md (stringify_texts batch @ '':'' @ ''text-embedding-3-small'')"

text \<open>The body of the \<open>for\<close> loop: the embeddings of one batch, or what the provider threw.\<close>

definition embedBatch ::
  "(real list list) deps \<Rightarrow> (string list \<Rightarrow> string)
     \<Rightarrow> (string list \<Rightarrow> thrown + CreateEmbeddingResponse)
     \<Rightarrow> time \<Rightarrow> string option \<Rightarrow> string option \<Rightarrow> string list
     \<Rightarrow> (real list list) world \<Rightarrow> (thrown + real list list) \<times> (real list list) world" where
  "embedBatch d stringify_texts create now video user batch w =
     (let model = ''text-embedding-3-small'';
          key = batchKey (md5 d) stringify_texts batch;
          (hit, w1) = get (sha256 d) now ''embeddings'' key model w
      in case hit of
           Some c \<Rightarrow>
             (Inr c, trackUsage now ''embedding'' model
                       (Some (real (length (join '' '' batch)) / 4)) None None (Some True)
                       video user w1)
         | None \<Rightarrow>
             (let w2 = emit (ProviderCall (EmbeddingsCreate model batch)) w1
              in case create batch of
                   Inl e \<Rightarrow> (Inl e, w2)
                 | Inr r \<Rightarrow>
                     (let batchEmbeddings = data r;
                          w3 = trackUsage now ''embedding'' model (Some (num (usage_prompt_tokens r)))
                                 None None (Some False) video user w2;
                          w4 = storeEntry (sha256 d) now ''embeddings'' key model batchEmbeddings
                                 (Some 180) (Some (int (length (join '' '' batch))))
                                 (Some (int (length (stringify d batchEmbeddings)))) w3
                      in (Inr batchEmbeddings, w4))))"

function embeddingsLoop ::
  "(string list \<Rightarrow> (real list list) world \<Rightarrow> (thrown + real list list) \<times> (real list list) world)
     \<Rightarrow> string list \<Rightarrow> nat \<Rightarrow> real list list \<Rightarrow> (real list list) world
     \<Rightarrow> (thrown + real list list) \<times> (real list list) world" where
  "embeddingsLoop body texts i embeddings w =
     (if i < length texts
      then (case body (slice texts i (i + batchSize)) w of
              (Inl e, w') \<Rightarrow> (Inl e, w')
            | (Inr batchEmbeddings, w') \<Rightarrow>
                embeddingsLoop body texts (i + batchSize) (embeddings @ batchEmbeddings) w')
      else (Inr embeddings, w))"
  by pat_completeness auto
termination
  by (relation "measure (\<lambda>(body, texts, i, embeddings, w). length texts - i)")
     (auto simp: batchSize_def)

definition generateEmbeddingsCached ::
  "(real list list) deps \<Rightarrow> (string list \<Rightarrow> string)
     \<Rightarrow> (string list \<Rightarrow> thrown + CreateEmbeddingResponse)
     \<Rightarrow> time \<Rightarrow> string list \<Rightarrow> string option \<Rightarrow> string option
     \<Rightarrow> (real list list) world \<Rightarrow> (thrown + real list list) \<times> (real list list) world" where
  "generateEmbeddingsCached d stringify_texts create now texts video user w =
     (case embeddingsLoop (embedBatch d stringify_texts create now video user) texts 0 [] w of
        (Inl e, w') \<Rightarrow> (Inl (failed ''Embedding generation failed'' e), w')
      | (Inr embeddings, w') \<Rightarrow> (Inr embeddings, w'))"

section \<open>Formulas of the specification and example states\<close>

text \<open>
  The hit rates as the specification words them: plain ratios, the provider calls being
  the ledger records with \<open>cached = false\<close>.
\<close>

definition cacheHitRate_spec :: "APIUsage list \<Rightarrow> real" where
  "cacheHitRate_spec rows = real (length (filter cached rows)) / real (length rows)"

definition totalCacheHits :: "'p world \<Rightarrow> int" where
  "totalCacheHits w = sum_list (map hitCount (aICache w))"

definition totalProviderCalls :: "'p world \<Rightarrow> int" where
  "totalProviderCalls w = int (length (filter (\<lambda>r. \<not> cached r) (aPIUsage w)))"

definition hitRate_spec :: "'p world \<Rightarrow> real" where
  "hitRate_spec w =
     real_of_int (totalCacheHits w) / real_of_int (totalCacheHits w + totalProviderCalls w)"

definition empty_world :: "'p world" where
  "empty_world = \<lparr>aICache = [], aPIUsage = [], trace = []\<rparr>"

definition usage_row :: "bool \<Rightarrow> time \<Rightarrow> APIUsage" where
  "usage_row flag t =
     \<lparr>u_type = ''completion'', u_model = ''gpt-4o-mini'', inputTokens = Some 100,
      outputTokens = Some 50, inputMinutes = None, estimatedCost = Some 0, cached = flag,
      timestamp = t, videoId = None, userId = None\<rparr>"

definition cache_row :: "string \<Rightarrow> 'p \<Rightarrow> time option \<Rightarrow> int \<Rightarrow> 'p AICache" where
  "cache_row hash payload expires hits =
     \<lparr>c_type = ''test'', inputHash = hash, response = payload, c_model = ''test-model'',
      inputSize = Some 100, outputSize = Some 50, createdAt = 0, updatedAt = 0,
      expiresAt = expires, hitCount = hits\<rparr>"

definition any_row :: "'p AICache \<Rightarrow> bool" where
  "any_row row = True"

definition one_hit_one_call :: "nat world" where
  "one_hit_one_call =
     \<lparr>aICache = [cache_row ''h'' 0 None 1], aPIUsage = [usage_row False 5], trace = []\<rparr>"

definition stale_world :: "nat world" where
  "stale_world =
     \<lparr>aICache = [cache_row ''m:a'' 7 (Some 1000) 2, cache_row ''m:b'' 8 (Some 5000) 0],
      aPIUsage = [], trace = []\<rparr>"

text \<open>\<open>before a b tr\<close>: the event \<open>b\<close> occurs in \<open>tr\<close> after the first \<open>a\<close>.\<close>

fun before :: "'a \<Rightarrow> 'a \<Rightarrow> 'a list \<Rightarrow> bool" where
  "before a b [] = False"
| "before a b (x # xs) = (if x = a then b \<in> set xs else before a b xs)"

definition plain_deps :: "'p deps" where
  "plain_deps = \<lparr>md5 = (\<lambda>s. s), sha256 = (\<lambda>s. s), stringify = (\<lambda>p. ''json'')\<rparr>"

definition some_transcription :: TranscriptionResponse where
  "some_transcription =
     \<lparr>t_task = ''transcribe'', t_language = ''english'', duration = 90, t_text = ''hello'',
      t_segments = []\<rparr>"

definition one_file :: "string \<Rightarrow> thrown + string" where
  "one_file path = (if path = ''a.wav'' then Inr ''RIFF'' else Inl (Error ''ENOENT''))"

definition whisper_ok :: "string \<Rightarrow> string \<Rightarrow> string \<Rightarrow> thrown + TranscriptionResponse" where
  "whisper_ok file path language = Inr some_transcription"

definition whisper_down :: "string \<Rightarrow> string \<Rightarrow> string \<Rightarrow> thrown + TranscriptionResponse" where
  "whisper_down file path language = Inl (Error ''503'')"

definition some_highlights :: json where
  "some_highlights = JObj [(''highlights'', JArr []), (''summary'', JStr ''s'')]"

definition parse_ok :: "string \<Rightarrow> thrown + json" where
  "parse_ok s =
     (if s = ''good'' then Inr some_highlights
      else if s = ''{}'' then Inr (JObj [])
      else if s = ''null'' then Inr JNull
      else Inl (Error ''Unexpected token''))"

definition chat_says :: "string \<Rightarrow> 'a \<Rightarrow> thrown + ChatCompletion" where
  "chat_says s request = Inr \<lparr>choices = [Some s], usage = Some (120, 40)\<rparr>"

definition chat_down :: "'a \<Rightarrow> thrown + ChatCompletion" where
  "chat_down request = Inl (Error ''429 rate limit'')"

definition segments_json :: "Segment list \<Rightarrow> string" where
  "segments_json segments = (if segments = [] then ''[]'' else ''[...]'')"

text \<open>
  The batches that the loop of \<open>generateEmbeddingsCached\<close> visits from index \<open>i\<close> on, and
  the loop over a list of batches.
\<close>

function batchesFrom :: "'a list \<Rightarrow> nat \<Rightarrow> 'a list list" where
  "batchesFrom texts i =
     (if i < length texts
      then slice texts i (i + batchSize) # batchesFrom texts (i + batchSize)
      else [])"
  by pat_completeness auto
termination
  by (relation "measure (\<lambda>(texts, i). length texts - i)") (auto simp: batchSize_def)

fun runBatches ::
  "('b \<Rightarrow> 'w \<Rightarrow> (thrown + 'e list) \<times> 'w) \<Rightarrow> 'b list \<Rightarrow> 'e list \<Rightarrow> 'w \<Rightarrow> (thrown + 'e list) \<times> 'w" where
  "runBatches body [] acc w = (Inr acc, w)"
| "runBatches body (b # bs) acc w =
     (case body b w of
        (Inl e, w') \<Rightarrow> (Inl e, w')
      | (Inr es, w') \<Rightarrow> runBatches body bs (acc @ es) w')"

definition embeddingsHash ::
  "(real list list) deps \<Rightarrow> (string list \<Rightarrow> string) \<Rightarrow> string list \<Rightarrow> string" where
  "embeddingsHash d stringify_texts batch =
     generateHash (sha256 d) (batchKey (md5 d) stringify_texts batch) ''text-embedding-3-small''"

text \<open>
  What a trace says about the batches: the fingerprints looked up, and for each batch
  whether it was served from the cache (the hit-count update of \<open>get\<close>) or sent to the
  provider.
\<close>

datatype outcome = ServedFromCache string | ProviderCalled "string list"


fun outcomes :: "event list \<Rightarrow> outcome list" where
  "outcomes [] = []"
| "outcomes (CacheUpdate h # evs) = ServedFromCache h # outcomes evs"
| "outcomes (ProviderCall (EmbeddingsCreate m batch) # evs) = ProviderCalled batch # outcomes evs"
| "outcomes (ev # evs) = outcomes evs"




text \<open>
  Every cache entry stored under the fingerprint of one of the batches holds the
  embeddings \<open>map e\<close> of that batch.
\<close>

definition cacheAgrees ::
  "(string \<Rightarrow> real list) \<Rightarrow> (string list \<Rightarrow> string) \<Rightarrow> string list list
     \<Rightarrow> (real list list) AICache list \<Rightarrow> bool" where
  "cacheAgrees e key batches rows =
     list_all (\<lambda>c. list_all (\<lambda>b. inputHash c \<noteq> key b \<or> response c = map e b) batches) rows"

definition unary_json :: "string list \<Rightarrow> string" where
  "unary_json batch = replicate (length batch) (CHR ''#'')"

definition text_vector :: "string \<Rightarrow> real list" where
  "text_vector t = [real (length t)]"

definition embed_ok :: "string list \<Rightarrow> thrown + CreateEmbeddingResponse" where
  "embed_ok batch = Inr \<lparr>data = map text_vector batch, usage_prompt_tokens = Some 7\<rparr>"



section \<open>Properties of the cost model and of the usage statistics\<close>

lemma COST_RATES_nonneg:
  "COST_RATES model = Some (PerMinute r) \<Longrightarrow> 0 \<le> r"
  "COST_RATES model = Some (Per1K ri ro) \<Longrightarrow> 0 \<le> ri"
  "COST_RATES model = Some (Per1K ri (Some r')) \<Longrightarrow> 0 \<le> r'"
  by (auto simp: COST_RATES_def split: if_splits)

lemma calculateCost_refines:
  "calculateCost type model it ot im = estimateCost_spec type model it ot im"
  by (auto simp: calculateCost_def estimateCost_spec_def truthy_num_def num_def Let_def
           split: option.splits rates.splits)

lemma estimateCost_spec_nonneg:
  assumes "0 \<le> num it" "0 \<le> num ot" "0 \<le> num im"
  shows "0 \<le> estimateCost_spec type model it ot im"
  using assms COST_RATES_nonneg [of model]
  by (auto simp: estimateCost_spec_def split: option.splits rates.splits)

text \<open>
  C6. \<open>calculateCost\<close> is a total function of its arguments (it has no error result):
  it is 0 for every model outside the rate table, it equals quantity / unit * rate,
  summed over the input and output components, for every model in the table, and it is
  non-negative when the quantities are.
\<close>

theorem calculateCost_total_and_exact:
  "(COST_RATES model = None \<longrightarrow> calculateCost type model it ot im = 0)
   \<and> calculateCost type model it ot im = estimateCost_spec type model it ot im
   \<and> (0 \<le> num it \<and> 0 \<le> num ot \<and> 0 \<le> num im \<longrightarrow> 0 \<le> calculateCost type model it ot im)"
proof (intro conjI impI)
  assume "COST_RATES model = None"
  then show "calculateCost type model it ot im = 0"
    by (simp add: calculateCost_def)
next
  show "calculateCost type model it ot im = estimateCost_spec type model it ot im"
    by (rule calculateCost_refines)
next
  assume "0 \<le> num it \<and> 0 \<le> num ot \<and> 0 \<le> num im"
  then show "0 \<le> calculateCost type model it ot im"
    by (simp add: calculateCost_refines estimateCost_spec_nonneg)
qed

theorem calculateCost_total_and_exact_witness:
  "COST_RATES ''gpt-5'' = None \<and> calculateCost ''completion'' ''gpt-5'' (Some 1000) (Some 500) None = 0
   \<and> calculateCost ''completion'' ''gpt-4o-mini'' (Some 2000) (Some 1000) None
       = 2000 / 1000 * (15 / 100000) + 1000 / 1000 * (6 / 10000)
   \<and> calculateCost ''transcription'' ''whisper-1'' None None (Some 10) = 10 * (6 / 1000)
   \<and> 0 \<le> calculateCost ''embedding'' ''text-embedding-3-small'' (Some 4000) None None"
proof -
  have a: "COST_RATES ''gpt-5'' = None"
    by (simp add: COST_RATES_def)
  have b: "calculateCost ''completion'' ''gpt-5'' (Some 1000) (Some 500) None = 0"
    using calculateCost_total_and_exact [of "''gpt-5''" "''completion''" "Some 1000" "Some 500" None] a
    by blast
  have c: "calculateCost ''completion'' ''gpt-4o-mini'' (Some 2000) (Some 1000) None
       = 2000 / 1000 * (15 / 100000) + 1000 / 1000 * (6 / 10000)"
    using calculateCost_total_and_exact [of "''gpt-4o-mini''" "''completion''" "Some 2000" "Some 1000" None]
    by (simp add: estimateCost_spec_def COST_RATES_def num_def)
  have d: "calculateCost ''transcription'' ''whisper-1'' None None (Some 10) = 10 * (6 / 1000)"
    using calculateCost_total_and_exact [of "''whisper-1''" "''transcription''" None None "Some 10"]
    by (simp add: estimateCost_spec_def COST_RATES_def num_def)
  have e: "0 \<le> calculateCost ''embedding'' ''text-embedding-3-small'' (Some 4000) None None"
    using calculateCost_total_and_exact [of "''text-embedding-3-small''" "''embedding''" "Some 4000" None None]
    by (simp add: num_def)
  from a b c d e show ?thesis by blast
qed

lemma length_filter_le_real: "real (length (filter P xs)) \<le> real (length xs)"
  by simp

text \<open>
  C1 (as amended). \<open>getUsageStats\<close> reports the cache hit rate as a percentage: whenever
  the records selected by the filter are not empty, \<open>cacheHitRate\<close> is 100 times
  cachedCount / totalCount of the selected records, and it lies between 0 and 100.
\<close>

theorem getUsageStats_cacheHitRate_percent:
  assumes "filter (whereClause startDate endDate user) ledger \<noteq> []"
  shows "cacheHitRate (getUsageStats startDate endDate user ledger)
           = 100 * cacheHitRate_spec (filter (whereClause startDate endDate user) ledger)
         \<and> 0 \<le> cacheHitRate (getUsageStats startDate endDate user ledger)
         \<and> cacheHitRate (getUsageStats startDate endDate user ledger) \<le> 100"
proof -
  let ?rows = "filter (whereClause startDate endDate user) ledger"
  have pos: "0 < real (length ?rows)" using assms by simp
  have eq: "cacheHitRate (getUsageStats startDate endDate user ledger)
           = 100 * cacheHitRate_spec ?rows"
    using assms by (simp add: getUsageStats_def cacheHitRate_spec_def Let_def)
  have "cacheHitRate_spec ?rows \<le> 1"
    unfolding cacheHitRate_spec_def using pos length_filter_le_real [of cached ?rows]
    by (simp add: divide_le_eq_1)
  moreover have "0 \<le> cacheHitRate_spec ?rows"
    unfolding cacheHitRate_spec_def by simp
  ultimately show ?thesis using eq by simp
qed

theorem getUsageStats_cacheHitRate_percent_witness:
  "cacheHitRate (getUsageStats None None None [usage_row True 5, usage_row False 6]) = 50"
  using getUsageStats_cacheHitRate_percent [of None None None "[usage_row True 5, usage_row False 6]"]
  by (simp add: whereClause_def cacheHitRate_spec_def usage_row_def)

text \<open>
  The ledger holding one record served from the cache has the ratio 1 and the reported
  \<open>cacheHitRate\<close> 100, outside the unit interval.
\<close>

theorem cacheHitRate_unit_interval_counterexample:
  "cacheHitRate (getUsageStats None None None [usage_row True 5]) = 100
   \<and> cacheHitRate_spec [usage_row True 5] = 1
   \<and> cacheHitRate (getUsageStats None None None [usage_row True 5])
       \<noteq> cacheHitRate_spec [usage_row True 5]
   \<and> \<not> cacheHitRate (getUsageStats None None None [usage_row True 5]) \<le> 1"
  by (simp add: getUsageStats_def whereClause_def cacheHitRate_spec_def usage_row_def Let_def)

lemma getStats_hitRate:
  "hitRate (getStats w) =
     (if 0 < int (length (aPIUsage w)) + totalCacheHits w
      then 100 * (real_of_int (totalCacheHits w)
                  / real_of_int (int (length (aPIUsage w)) + totalCacheHits w))
      else 0)"
  by (simp add: getStats_def totalCacheHits_def Let_def)

text \<open>
  C9 (as amended). \<open>getStats\<close> reports \<open>hitRate\<close> as a percentage: on a ledger that holds
  records of provider calls only (none with \<open>cached = true\<close>) it is 100 times
  totalCacheHits / (totalCacheHits + totalProviderCalls), and 0 when there is neither a
  hit nor a call.
\<close>

theorem getStats_hitRate_percent:
  assumes "filter cached (aPIUsage w) = []"
  shows "hitRate (getStats w) =
           (if 0 < totalCacheHits w + totalProviderCalls w then 100 * hitRate_spec w else 0)"
proof -
  have "filter (\<lambda>r. \<not> cached r) (aPIUsage w) = aPIUsage w"
    using assms by (simp add: filter_empty_conv)
  then have "totalProviderCalls w = int (length (aPIUsage w))"
    by (simp add: totalProviderCalls_def)
  then show ?thesis
    by (simp add: getStats_hitRate hitRate_spec_def add.commute)
qed

theorem getStats_hitRate_percent_witness:
  "hitRate (getStats \<lparr>aICache = [cache_row ''h'' (0::nat) None 3], aPIUsage = [usage_row False 5],
                      trace = []\<rparr>) = 75"
  using getStats_hitRate_percent [of "\<lparr>aICache = [cache_row ''h'' (0::nat) None 3],
     aPIUsage = [usage_row False 5], trace = []\<rparr>"]
  by (simp add: hitRate_spec_def totalCacheHits_def totalProviderCalls_def usage_row_def cache_row_def)

text \<open>
  One cache entry hit once and one provider call: the ratio of the specification is 1/2,
  the reported \<open>hitRate\<close> is 50.
\<close>

theorem getStats_hitRate_ratio_counterexample:
  "hitRate (getStats one_hit_one_call) = 50
   \<and> hitRate_spec one_hit_one_call = 1 / 2
   \<and> hitRate (getStats one_hit_one_call) \<noteq> hitRate_spec one_hit_one_call"
  by (simp add: getStats_def hitRate_spec_def totalCacheHits_def totalProviderCalls_def
        one_hit_one_call_def usage_row_def cache_row_def Let_def)

section \<open>Properties of the cache service\<close>

lemma findUnique_filter_other: "findUnique h (filter (\<lambda>c. inputHash c \<noteq> h) rows) = None"
  by (induction rows) (auto simp: findUnique_def)

lemma findUnique_map_same:
  assumes "findUnique h rows = Some e" and "\<And>c. inputHash (f c) = inputHash c"
  shows "findUnique h (map (\<lambda>c. if inputHash c = h then f c else c) rows) = Some (f e)"
  using assms by (induction rows) (auto simp: findUnique_def)

lemma filter_other_map_same:
  assumes "\<And>c. inputHash (f c) = inputHash c"
  shows "filter (\<lambda>c. inputHash c \<noteq> h) (map (\<lambda>c. if inputHash c = h then f c else c) rows)
           = filter (\<lambda>c. inputHash c \<noteq> h) rows"
  using assms by (induction rows) auto

lemma trace_emit [simp]: "trace (emit ev w) = trace w @ [ev]"
  and aICache_emit [simp]: "aICache (emit ev w) = aICache w"
  and aPIUsage_emit [simp]: "aPIUsage (emit ev w) = aPIUsage w"
  by (simp_all add: emit_def)

lemma get_miss:
  assumes "findUnique (generateHash sha content model) (aICache w) = None"
  shows "get sha now type content model w
           = (None, emit (CacheFind (generateHash sha content model)) w)"
  using assms by (simp add: get_def Let_def)

lemma get_stale:
  assumes "findUnique (generateHash sha content model) (aICache w) = Some entry"
    and "expired now entry"
  shows "get sha now type content model w
           = (None, delete (generateHash sha content model)
                      (emit (CacheFind (generateHash sha content model)) w))"
  using assms by (simp add: get_def Let_def)

lemma get_hit:
  assumes "findUnique (generateHash sha content model) (aICache w) = Some entry"
    and "\<not> expired now entry"
  shows "get sha now type content model w
           = (Some (response entry),
              incrementHit now (generateHash sha content model)
                (emit (CacheFind (generateHash sha content model)) w))"
  using assms by (simp add: get_def Let_def)

lemma findUnique_None_iff:
  "findUnique h rows = None \<longleftrightarrow> filter (\<lambda>c. inputHash c = h) rows = []"
  by (induction rows) (auto simp: findUnique_def)

lemma upsert_absent:
  assumes "findUnique h rows = None"
  shows "upsert h create update rows = rows @ [create]"
  using assms by (simp add: upsert_def)

lemma upsert_present:
  assumes "findUnique h rows \<noteq> None"
  shows "upsert h create update rows = map (\<lambda>c. if inputHash c = h then update c else c) rows"
  using assms by (auto simp: upsert_def)

lemma filter_hash_map_update:
  assumes "\<And>c. inputHash (f c) = inputHash c"
  shows "filter (\<lambda>c. inputHash c = h) (map (\<lambda>c. if inputHash c = h then f c else c) rows)
           = map f (filter (\<lambda>c. inputHash c = h) rows)"
  using assms by (induction rows) auto

lemma map_hash_map_update:
  assumes "\<And>c. inputHash (f c) = inputHash c"
  shows "map inputHash (map (\<lambda>c. if inputHash c = h then f c else c) rows) = map inputHash rows"
  using assms by (induction rows) auto

lemma upsert_hashes:
  assumes "inputHash create = h" and "\<And>c. inputHash (update c) = inputHash c"
  shows "map inputHash (upsert h create update rows)
           = (if findUnique h rows = None then map inputHash rows @ [h] else map inputHash rows)"
  using assms by (simp add: upsert_absent upsert_present map_hash_map_update)

lemma upsert_distinct:
  assumes "inputHash create = h" and "\<And>c. inputHash (update c) = inputHash c"
    and "distinct (map inputHash rows)"
  shows "distinct (map inputHash (upsert h create update rows))"
proof (cases "findUnique h rows = None")
  case True
  then have "h \<notin> inputHash ` set rows"
    by (auto simp: findUnique_None_iff filter_empty_conv)
  with assms True show ?thesis by (simp add: upsert_hashes)
next
  case False
  then have "map inputHash (upsert h create update rows) = map inputHash rows"
    by (simp add: upsert_present map_hash_map_update assms(2))
  with assms(3) show ?thesis by simp
qed

lemma upsert_found:
  assumes "inputHash create = h" and "\<And>c. inputHash (update c) = inputHash c"
  shows "findUnique h (upsert h create update rows) \<noteq> None"
proof (cases "findUnique h rows = None")
  case True
  with assms show ?thesis
    by (simp add: upsert_absent findUnique_None_iff)
next
  case False
  with assms show ?thesis
    by (simp add: upsert_present findUnique_None_iff filter_hash_map_update)
qed

lemma distinct_filter_hash_length:
  assumes "distinct (map inputHash rows)" and "findUnique h rows \<noteq> None"
  shows "length (filter (\<lambda>c. inputHash c = h) rows) = 1"
  using assms
proof (induction rows)
  case Nil
  then show ?case by (simp add: findUnique_def)
next
  case (Cons c rows)
  show ?case
  proof (cases "inputHash c = h")
    case True
    with Cons.prems(1) have "\<forall>x\<in>set rows. inputHash x \<noteq> h"
      by (metis distinct.simps(2) imageI list.simps(9) list.set_map)
    then have "filter (\<lambda>c. inputHash c = h) rows = []"
      by (simp add: filter_empty_conv)
    with True show ?thesis by simp
  next
    case False
    with Cons show ?thesis by (simp add: findUnique_def)
  qed
qed

lemma aICache_storeEntry:
  "aICache (storeEntry sha now type content model resp days inSize outSize w)
     = upsert (generateHash sha content model)
         \<lparr>c_type = type, inputHash = generateHash sha content model, response = resp,
          c_model = model, inputSize = inSize, outputSize = outSize, createdAt = now,
          updatedAt = now, expiresAt = expiresAfter now days, hitCount = 0\<rparr>
         (\<lambda>c. c\<lparr>response := resp, inputSize := keep inSize (inputSize c),
                 outputSize := keep outSize (outputSize c), expiresAt := expiresAfter now days,
                 updatedAt := now\<rparr>)
         (aICache w)"
  by (simp add: storeEntry_def Let_def)

lemma storeEntry_distinct:
  assumes "distinct (map inputHash (aICache w))"
  shows "distinct (map inputHash (aICache (storeEntry sha now type content model resp days inSize outSize w)))"
  unfolding aICache_storeEntry by (rule upsert_distinct) (simp_all add: assms)

lemma storeEntry_found:
  "findUnique (generateHash sha content model)
     (aICache (storeEntry sha now type content model resp days inSize outSize w)) \<noteq> None"
  unfolding aICache_storeEntry by (rule upsert_found) simp_all

lemma storeEntry_fresh:
  assumes "findUnique (generateHash sha content model) (aICache w) = None"
  shows "aICache (storeEntry sha now type content model resp days inSize outSize w)
           = aICache w @
             [\<lparr>c_type = type, inputHash = generateHash sha content model, response = resp,
               c_model = model, inputSize = inSize, outputSize = outSize, createdAt = now,
               updatedAt = now, expiresAt = expiresAfter now days, hitCount = 0\<rparr>]"
  using assms by (simp add: aICache_storeEntry upsert_absent)

lemma storeEntry_overwrite:
  assumes "findUnique (generateHash sha content model) (aICache w) \<noteq> None"
  shows "aICache (storeEntry sha now type content model resp days inSize outSize w)
           = map (\<lambda>c. if inputHash c = generateHash sha content model
                       then c\<lparr>response := resp, inputSize := keep inSize (inputSize c),
                              outputSize := keep outSize (outputSize c),
                              expiresAt := expiresAfter now days, updatedAt := now\<rparr>
                       else c) (aICache w)"
  using assms by (simp add: aICache_storeEntry upsert_present)

lemma storeEntry_twice:
  "(findUnique (generateHash sha content model) (aICache w) = None \<longrightarrow>
      aICache (storeEntry sha now1 type content model r1 d1 i1 o1 w)
        = aICache w @
          [\<lparr>c_type = type, inputHash = generateHash sha content model, response = r1,
            c_model = model, inputSize = i1, outputSize = o1, createdAt = now1,
            updatedAt = now1, expiresAt = expiresAfter now1 d1, hitCount = 0\<rparr>]
      \<and> aICache (storeEntry sha now2 type content model r2 d2 i2 o2
                   (storeEntry sha now1 type content model r1 d1 i1 o1 w))
        = aICache w @
          [\<lparr>c_type = type, inputHash = generateHash sha content model, response = r2,
            c_model = model, inputSize = keep i2 i1, outputSize = keep o2 o1,
            createdAt = now1, updatedAt = now2, expiresAt = expiresAfter now2 d2, hitCount = 0\<rparr>])
   \<and> (distinct (map inputHash (aICache w)) \<longrightarrow>
        length (filter (\<lambda>c. inputHash c = generateHash sha content model)
                  (aICache (storeEntry sha now2 type content model r2 d2 i2 o2
                     (storeEntry sha now1 type content model r1 d1 i1 o1 w)))) = 1
        \<and> map response (filter (\<lambda>c. inputHash c = generateHash sha content model)
                  (aICache (storeEntry sha now2 type content model r2 d2 i2 o2
                     (storeEntry sha now1 type content model r1 d1 i1 o1 w)))) = [r2]
        \<and> map expiresAt (filter (\<lambda>c. inputHash c = generateHash sha content model)
                  (aICache (storeEntry sha now2 type content model r2 d2 i2 o2
                     (storeEntry sha now1 type content model r1 d1 i1 o1 w)))) = [expiresAfter now2 d2])"
proof (intro conjI impI)
  let ?h = "generateHash sha content model"
  let ?w1 = "storeEntry sha now1 type content model r1 d1 i1 o1 w"
  let ?w2 = "storeEntry sha now2 type content model r2 d2 i2 o2 ?w1"
  let ?upd = "\<lambda>c::'a AICache. c\<lparr>response := r2, inputSize := keep i2 (inputSize c),
                 outputSize := keep o2 (outputSize c), expiresAt := expiresAfter now2 d2,
                 updatedAt := now2\<rparr>"
  have found1: "findUnique ?h (aICache ?w1) \<noteq> None" by (rule storeEntry_found)
  have w2: "aICache ?w2 = map (\<lambda>c. if inputHash c = ?h then ?upd c else c) (aICache ?w1)"
    by (rule storeEntry_overwrite [OF found1])
  {
    assume absent: "findUnique ?h (aICache w) = None"
    show first: "aICache ?w1 = aICache w @
          [\<lparr>c_type = type, inputHash = ?h, response = r1,
            c_model = model, inputSize = i1, outputSize = o1, createdAt = now1,
            updatedAt = now1, expiresAt = expiresAfter now1 d1, hitCount = 0\<rparr>]"
      by (rule storeEntry_fresh [OF absent])
    have untouched: "map (\<lambda>c. if inputHash c = ?h then ?upd c else c) (aICache w) = aICache w"
      using absent by (auto simp: findUnique_None_iff filter_empty_conv intro: map_idI)
    show "aICache ?w2 = aICache w @
          [\<lparr>c_type = type, inputHash = ?h, response = r2,
            c_model = model, inputSize = keep i2 i1, outputSize = keep o2 o1,
            createdAt = now1, updatedAt = now2, expiresAt = expiresAfter now2 d2, hitCount = 0\<rparr>]"
      by (simp add: w2 first untouched)
  }
  {
    assume d: "distinct (map inputHash (aICache w))"
    have d1: "distinct (map inputHash (aICache ?w1))" by (rule storeEntry_distinct [OF d])
    have one: "length (filter (\<lambda>c. inputHash c = ?h) (aICache ?w1)) = 1"
      by (rule distinct_filter_hash_length [OF d1 found1])
    have f2: "filter (\<lambda>c. inputHash c = ?h) (aICache ?w2)
                = map ?upd (filter (\<lambda>c. inputHash c = ?h) (aICache ?w1))"
      unfolding w2 by (rule filter_hash_map_update) simp
    obtain e where e: "filter (\<lambda>c. inputHash c = ?h) (aICache ?w1) = [e]"
      using one by (auto simp: length_Suc_conv)
    show "length (filter (\<lambda>c. inputHash c = ?h) (aICache ?w2)) = 1"
      by (simp add: f2 one)
    show "map response (filter (\<lambda>c. inputHash c = ?h) (aICache ?w2)) = [r2]"
      by (simp add: f2 e)
    show "map expiresAt (filter (\<lambda>c. inputHash c = ?h) (aICache ?w2)) = [expiresAfter now2 d2]"
      by (simp add: f2 e)
  }
qed

lemma set'_accepted:
  assumes "\<not> rejected accepts sha now type content model resp days i out"
  shows "set' accepts sha now type content model resp days i out w
           = storeEntry sha now type content model resp days i out w"
  using assms by (simp add: set'_def)

lemma set'_rejected:
  assumes "rejected accepts sha now type content model resp days i out"
  shows "set' accepts sha now type content model resp days i out w = w"
  using assms by (simp add: set'_def)

lemma expiry_accepted:
  assumes "\<not> rejected accepts sha now type content model resp days i out"
  shows "expiry now days = map_option Date (expiresAfter now days)"
  using assms
  by (auto simp: rejected_def expiry_def newDate_def split: option.splits if_splits)

text \<open>
  C3. Let the cache hold an entry under the fingerprint of a \<open>get\<close>. If its \<open>expiresAt\<close>
  is set and lies in the past, \<open>get\<close> returns nothing and the entry is gone afterwards,
  every other entry being kept; the only calls made are the lookup and the delete. If
  \<open>expiresAt\<close> is null or not in the past, \<open>get\<close> returns the stored payload and the
  entry's \<open>hitCount\<close> is one larger.
\<close>

theorem get_lazy_expiration:
  assumes found: "findUnique (generateHash sha content model) (aICache w) = Some entry"
  shows "(\<forall>e. expiresAt entry = Some e \<and> e < now \<longrightarrow>
            fst (get sha now type content model w) = None
            \<and> findUnique (generateHash sha content model)
                 (aICache (snd (get sha now type content model w))) = None
            \<and> aICache (snd (get sha now type content model w))
                 = filter (\<lambda>c. inputHash c \<noteq> generateHash sha content model) (aICache w)
            \<and> trace (snd (get sha now type content model w))
                 = trace w @ [CacheFind (generateHash sha content model),
                              CacheDelete (generateHash sha content model)])
       \<and> ((expiresAt entry = None \<or> (\<exists>e. expiresAt entry = Some e \<and> now \<le> e)) \<longrightarrow>
            fst (get sha now type content model w) = Some (response entry)
            \<and> findUnique (generateHash sha content model)
                 (aICache (snd (get sha now type content model w)))
                 = Some (entry\<lparr>hitCount := hitCount entry + 1, updatedAt := now\<rparr>)
            \<and> filter (\<lambda>c. inputHash c \<noteq> generateHash sha content model)
                 (aICache (snd (get sha now type content model w)))
                 = filter (\<lambda>c. inputHash c \<noteq> generateHash sha content model) (aICache w)
            \<and> trace (snd (get sha now type content model w))
                 = trace w @ [CacheFind (generateHash sha content model),
                              CacheUpdate (generateHash sha content model)])"
proof (intro conjI allI impI)
  fix e
  assume "expiresAt entry = Some e \<and> e < now"
  then have ex: "expired now entry" by (simp add: expired_def)
  note g = get_stale [OF found ex, of type]
  show "fst (get sha now type content model w) = None" by (simp add: g)
  show "findUnique (generateHash sha content model)
          (aICache (snd (get sha now type content model w))) = None"
    by (simp add: g delete_def findUnique_filter_other)
  show "aICache (snd (get sha now type content model w))
          = filter (\<lambda>c. inputHash c \<noteq> generateHash sha content model) (aICache w)"
    by (simp add: g delete_def)
  show "trace (snd (get sha now type content model w))
          = trace w @ [CacheFind (generateHash sha content model),
                       CacheDelete (generateHash sha content model)]"
    by (simp add: g delete_def)
next
  assume "expiresAt entry = None \<or> (\<exists>e. expiresAt entry = Some e \<and> now \<le> e)"
  then have ex: "\<not> expired now entry" by (auto simp: expired_def)
  note g = get_hit [OF found ex, of type]
  show "fst (get sha now type content model w) = Some (response entry)" by (simp add: g)
  show "findUnique (generateHash sha content model)
          (aICache (snd (get sha now type content model w)))
          = Some (entry\<lparr>hitCount := hitCount entry + 1, updatedAt := now\<rparr>)"
    using findUnique_map_same [OF found, of "\<lambda>c. c\<lparr>hitCount := hitCount c + 1, updatedAt := now\<rparr>"]
    by (simp add: g incrementHit_def)
  show "filter (\<lambda>c. inputHash c \<noteq> generateHash sha content model)
          (aICache (snd (get sha now type content model w)))
          = filter (\<lambda>c. inputHash c \<noteq> generateHash sha content model) (aICache w)"
    using filter_other_map_same [of "\<lambda>c. c\<lparr>hitCount := hitCount c + 1, updatedAt := now\<rparr>"]
    by (simp add: g incrementHit_def)
  show "trace (snd (get sha now type content model w))
          = trace w @ [CacheFind (generateHash sha content model),
                       CacheUpdate (generateHash sha content model)]"
    by (simp add: g incrementHit_def)
qed

theorem get_lazy_expiration_witness:
  "fst (get id 2000 ''summary'' ''a'' ''m'' stale_world) = None
   \<and> aICache (snd (get id 2000 ''summary'' ''a'' ''m'' stale_world))
        = [cache_row ''m:b'' 8 (Some 5000) 0]
   \<and> trace (snd (get id 2000 ''summary'' ''a'' ''m'' stale_world))
        = [CacheFind ''m:a'', CacheDelete ''m:a'']
   \<and> fst (get id 2000 ''summary'' ''b'' ''m'' stale_world) = Some 8
   \<and> findUnique ''m:b'' (aICache (snd (get id 2000 ''summary'' ''b'' ''m'' stale_world)))
        = Some (cache_row ''m:b'' 8 (Some 5000) 0\<lparr>hitCount := 1, updatedAt := 2000\<rparr>)"
proof -
  have fa: "findUnique (generateHash id ''a'' ''m'') (aICache stale_world)
              = Some (cache_row ''m:a'' 7 (Some 1000) 2)"
    by (simp add: findUnique_def generateHash_def stale_world_def cache_row_def)
  have fb: "findUnique (generateHash id ''b'' ''m'') (aICache stale_world)
              = Some (cache_row ''m:b'' 8 (Some 5000) 0)"
    by (simp add: findUnique_def generateHash_def stale_world_def cache_row_def)
  have a: "fst (get id 2000 ''summary'' ''a'' ''m'' stale_world) = None
      \<and> aICache (snd (get id 2000 ''summary'' ''a'' ''m'' stale_world))
           = [cache_row ''m:b'' 8 (Some 5000) 0]
      \<and> trace (snd (get id 2000 ''summary'' ''a'' ''m'' stale_world))
           = [CacheFind ''m:a'', CacheDelete ''m:a'']"
    using get_lazy_expiration [OF fa, of 2000 "''summary''"]
    by (simp add: generateHash_def stale_world_def cache_row_def)
  have b: "fst (get id 2000 ''summary'' ''b'' ''m'' stale_world) = Some 8
      \<and> findUnique ''m:b'' (aICache (snd (get id 2000 ''summary'' ''b'' ''m'' stale_world)))
        = Some (cache_row ''m:b'' 8 (Some 5000) 0\<lparr>hitCount := 1, updatedAt := 2000\<rparr>)"
    using get_lazy_expiration [OF fb, of 2000 "''summary''"]
    by (simp add: generateHash_def cache_row_def)
  from a b show ?thesis by blast
qed

text \<open>
  C8 (as amended). Two calls of \<open>set\<close> with the same kind, fingerprint input and model,
  both taken by the database (the expiry is a valid Date, the sizes fit the \<open>Int\<close> column,
  the row is accepted): when no entry had the fingerprint, the first call appends a fresh
  entry with \<open>hitCount = 0\<close> and the second overwrites its payload and expiry in place,
  without adding a row; each size is the one of the second call when that call gives it
  and otherwise stays the one of the first. From any table with unique fingerprints,
  exactly one entry has the fingerprint afterwards, with the payload and expiry of the
  second call. A call that the database rejects stores nothing.
\<close>

theorem set_twice_one_entry:
  "(\<not> rejected accepts sha now type content model r d i out
    \<and> \<not> rejected accepts sha later type content model r' d' i' out'
    \<and> findUnique (generateHash sha content model) (aICache w) = None \<longrightarrow>
      aICache (set' accepts sha now type content model r d i out w)
        = aICache w @
          [\<lparr>c_type = type, inputHash = generateHash sha content model, response = r,
            c_model = model, inputSize = i, outputSize = out, createdAt = now,
            updatedAt = now, expiresAt = expiresAfter now d, hitCount = 0\<rparr>]
      \<and> aICache (set' accepts sha later type content model r' d' i' out'
                   (set' accepts sha now type content model r d i out w))
        = aICache w @
          [\<lparr>c_type = type, inputHash = generateHash sha content model, response = r',
            c_model = model, inputSize = keep i' i, outputSize = keep out' out,
            createdAt = now, updatedAt = later, expiresAt = expiresAfter later d',
            hitCount = 0\<rparr>])
   \<and> (\<not> rejected accepts sha now type content model r d i out
      \<and> \<not> rejected accepts sha later type content model r' d' i' out'
      \<and> distinct (map inputHash (aICache w)) \<longrightarrow>
        length (filter (\<lambda>c. inputHash c = generateHash sha content model)
                  (aICache (set' accepts sha later type content model r' d' i' out'
                     (set' accepts sha now type content model r d i out w)))) = 1
        \<and> map response (filter (\<lambda>c. inputHash c = generateHash sha content model)
                  (aICache (set' accepts sha later type content model r' d' i' out'
                     (set' accepts sha now type content model r d i out w)))) = [r']
        \<and> map expiresAt (filter (\<lambda>c. inputHash c = generateHash sha content model)
                  (aICache (set' accepts sha later type content model r' d' i' out'
                     (set' accepts sha now type content model r d i out w))))
            = [expiresAfter later d']
        \<and> expiry later d' = map_option Date (expiresAfter later d'))
   \<and> (rejected accepts sha later type content model r' d' i' out' \<longrightarrow>
        set' accepts sha later type content model r' d' i' out' w = w)"
proof (intro conjI impI)
  assume a: "\<not> rejected accepts sha now type content model r d i out
    \<and> \<not> rejected accepts sha later type content model r' d' i' out'
    \<and> findUnique (generateHash sha content model) (aICache w) = None"
  then have s1: "set' accepts sha now type content model r d i out w
                   = storeEntry sha now type content model r d i out w"
    and s2: "\<And>v. set' accepts sha later type content model r' d' i' out' v
                   = storeEntry sha later type content model r' d' i' out' v"
    by (simp_all add: set'_accepted)
  from a have absent: "findUnique (generateHash sha content model) (aICache w) = None"
    by simp
  note t = storeEntry_twice [of sha content model w now type r d i out later r' d' i' out']
  show "aICache (set' accepts sha now type content model r d i out w)
        = aICache w @
          [\<lparr>c_type = type, inputHash = generateHash sha content model, response = r,
            c_model = model, inputSize = i, outputSize = out, createdAt = now,
            updatedAt = now, expiresAt = expiresAfter now d, hitCount = 0\<rparr>]"
    unfolding s1 using t absent by blast
  show "aICache (set' accepts sha later type content model r' d' i' out'
                   (set' accepts sha now type content model r d i out w))
        = aICache w @
          [\<lparr>c_type = type, inputHash = generateHash sha content model, response = r',
            c_model = model, inputSize = keep i' i, outputSize = keep out' out,
            createdAt = now, updatedAt = later, expiresAt = expiresAfter later d',
            hitCount = 0\<rparr>]"
    unfolding s1 s2 using t absent by blast
next
  assume a: "\<not> rejected accepts sha now type content model r d i out
      \<and> \<not> rejected accepts sha later type content model r' d' i' out'
      \<and> distinct (map inputHash (aICache w))"
  then have s1: "set' accepts sha now type content model r d i out w
                   = storeEntry sha now type content model r d i out w"
    and s2: "\<And>v. set' accepts sha later type content model r' d' i' out' v
                   = storeEntry sha later type content model r' d' i' out' v"
    by (simp_all add: set'_accepted)
  from a have dist: "distinct (map inputHash (aICache w))"
    by simp
  note t = storeEntry_twice [of sha content model w now type r d i out later r' d' i' out']
  show "length (filter (\<lambda>c. inputHash c = generateHash sha content model)
                  (aICache (set' accepts sha later type content model r' d' i' out'
                     (set' accepts sha now type content model r d i out w)))) = 1"
    unfolding s1 s2 using t dist by blast
  show "map response (filter (\<lambda>c. inputHash c = generateHash sha content model)
                  (aICache (set' accepts sha later type content model r' d' i' out'
                     (set' accepts sha now type content model r d i out w)))) = [r']"
    unfolding s1 s2 using t dist by blast
  show "map expiresAt (filter (\<lambda>c. inputHash c = generateHash sha content model)
                  (aICache (set' accepts sha later type content model r' d' i' out'
                     (set' accepts sha now type content model r d i out w))))
            = [expiresAfter later d']"
    unfolding s1 s2 using t dist by blast
  from a show "expiry later d' = map_option Date (expiresAfter later d')"
    using expiry_accepted [of accepts sha later type content model r' d' i' out'] by blast
next
  assume "rejected accepts sha later type content model r' d' i' out'"
  then show "set' accepts sha later type content model r' d' i' out' w = w"
    by (rule set'_rejected)
qed

theorem set_twice_one_entry_witness:
  "aICache (set' any_row id 20 ''summary'' ''k'' ''m'' ''new'' None (Some 7) None
              (set' any_row id 10 ''summary'' ''k'' ''m'' ''old'' (Some 60) (Some 3) (Some 4)
                 empty_world))
     = [\<lparr>c_type = ''summary'', inputHash = ''m:k'', response = ''new'', c_model = ''m'',
         inputSize = Some 7, outputSize = Some 4, createdAt = 10, updatedAt = 20,
         expiresAt = None, hitCount = 0\<rparr>]
   \<and> length (filter (\<lambda>c. inputHash c = ''m:k'')
        (aICache (set' any_row id 20 ''summary'' ''k'' ''m'' ''new'' None (Some 7) None
              (set' any_row id 10 ''summary'' ''k'' ''m'' ''old'' (Some 60) (Some 3) (Some 4)
                 empty_world)))) = 1
   \<and> set' any_row id 20 ''summary'' ''k'' ''m'' ''new'' (Some 200000000) None None
        (set' any_row id 10 ''summary'' ''k'' ''m'' ''old'' (Some 60) (Some 3) (Some 4) empty_world)
       = set' any_row id 10 ''summary'' ''k'' ''m'' ''old'' (Some 60) (Some 3) (Some 4) empty_world"
proof -
  have a: "findUnique (generateHash id ''k'' ''m'') (aICache (empty_world :: string world)) = None"
    by (simp add: findUnique_def empty_world_def)
  have d: "distinct (map inputHash (aICache (empty_world :: string world)))"
    by (simp add: empty_world_def)
  have r1: "\<not> rejected any_row id 10 ''summary'' ''k'' ''m'' ''old'' (Some 60) (Some 3) (Some 4)"
    by (simp add: rejected_def expiry_def expiresAfter_def newDate_def validTime_def fitsInt_def
          any_row_def)
  have r2: "\<not> rejected any_row id 20 ''summary'' ''k'' ''m'' ''new'' None (Some 7) None"
    by (simp add: rejected_def expiry_def expiresAfter_def newDate_def validTime_def fitsInt_def
          any_row_def)
  have r3: "rejected any_row id 20 ''summary'' ''k'' ''m'' ''new'' (Some 200000000) None None"
    by (simp add: rejected_def expiry_def expiresAfter_def newDate_def validTime_def)
  have x: "aICache (set' any_row id 20 ''summary'' ''k'' ''m'' ''new'' None (Some 7) None
              (set' any_row id 10 ''summary'' ''k'' ''m'' ''old'' (Some 60) (Some 3) (Some 4)
                 empty_world))
     = [\<lparr>c_type = ''summary'', inputHash = ''m:k'', response = ''new'', c_model = ''m'',
         inputSize = Some 7, outputSize = Some 4, createdAt = 10, updatedAt = 20,
         expiresAt = None, hitCount = 0\<rparr>]
   \<and> length (filter (\<lambda>c. inputHash c = ''m:k'')
        (aICache (set' any_row id 20 ''summary'' ''k'' ''m'' ''new'' None (Some 7) None
              (set' any_row id 10 ''summary'' ''k'' ''m'' ''old'' (Some 60) (Some 3) (Some 4)
                 empty_world)))) = 1"
    using set_twice_one_entry [where accepts = any_row and sha = id and content = "''k''"
        and model = "''m''" and w = "empty_world :: string world" and now = 10
        and type = "''summary''" and r = "''old''" and d = "Some 60" and i = "Some 3"
        and out = "Some 4" and later = 20 and r' = "''new''" and d' = None and i' = "Some 7"
        and out' = None] a d r1 r2
    by (simp add: generateHash_def empty_world_def keep_def expiresAfter_def)
  have y: "set' any_row id 20 ''summary'' ''k'' ''m'' ''new'' (Some 200000000) None None
        (set' any_row id 10 ''summary'' ''k'' ''m'' ''old'' (Some 60) (Some 3) (Some 4) empty_world)
       = set' any_row id 10 ''summary'' ''k'' ''m'' ''old'' (Some 60) (Some 3) (Some 4) empty_world"
    using set_twice_one_entry [where accepts = any_row and sha = id and content = "''k''"
        and model = "''m''" and later = 20 and type = "''summary''" and r' = "''new''"
        and d' = "Some 200000000" and i' = None and out' = None
        and w = "set' any_row id 10 ''summary'' ''k'' ''m'' ''old'' (Some 60) (Some 3) (Some 4)
                   (empty_world :: string world)"] r3
    by blast
  from x y show ?thesis by blast
qed

text \<open>
  A second \<open>set\<close> that omits the sizes leaves the sizes of the first call in the entry.
\<close>

theorem set_twice_sizes_counterexample:
  "map inputSize (aICache (set' any_row id 20 ''summary'' ''k'' ''m'' ''new'' (Some 60) None None
              (set' any_row id 10 ''summary'' ''k'' ''m'' ''old'' (Some 60) (Some 3) (Some 4)
                 empty_world))) = [Some 3]
   \<and> map outputSize (aICache (set' any_row id 20 ''summary'' ''k'' ''m'' ''new'' (Some 60) None None
              (set' any_row id 10 ''summary'' ''k'' ''m'' ''old'' (Some 60) (Some 3) (Some 4)
                 empty_world))) = [Some 4]
   \<and> map response (aICache (set' any_row id 20 ''summary'' ''k'' ''m'' ''new'' (Some 60) None None
              (set' any_row id 10 ''summary'' ''k'' ''m'' ''old'' (Some 60) (Some 3) (Some 4)
                 empty_world))) = [''new'']"
  by (simp add: set'_def rejected_def expiry_def newDate_def validTime_def fitsInt_def any_row_def
        storeEntry_def upsert_def findUnique_def generateHash_def empty_world_def keep_def
        expiresAfter_def emit_def Let_def)

section \<open>Properties of the cached services\<close>

lemma get_aPIUsage [simp]: "aPIUsage (snd (get sha now type content model w)) = aPIUsage w"
  by (simp add: get_def delete_def incrementHit_def Let_def split: option.splits)

lemma trackUsage_aICache [simp]:
  "aICache (trackUsage now type model it ot im c v u w) = aICache w"
  by (simp add: trackUsage_def Let_def)

lemma trackUsage_trace [simp]:
  "trace (trackUsage now type model it ot im (Some c) v u w) = trace w @ [UsageCreate c]"
  by (simp add: trackUsage_def Let_def)

lemma storeEntry_aPIUsage [simp]:
  "aPIUsage (storeEntry sha now type content model resp days i out w) = aPIUsage w"
  by (simp add: storeEntry_def Let_def)

lemma storeEntry_trace [simp]:
  "trace (storeEntry sha now type content model resp days i out w)
     = trace w @ [CacheUpsert (generateHash sha content model)]"
  by (simp add: storeEntry_def Let_def)

lemma get_None_cases:
  assumes "fst (get sha now type content model w) = None"
  shows "findUnique (generateHash sha content model) (aICache (snd (get sha now type content model w))) = None
       \<and> trace (snd (get sha now type content model w))
           = trace w @ [CacheFind (generateHash sha content model)]
               @ (if findUnique (generateHash sha content model) (aICache w) = None then []
                  else [CacheDelete (generateHash sha content model)])"
  using assms
  by (auto simp: get_def Let_def delete_def findUnique_filter_other split: option.splits if_splits)

lemma get_response_subset:
  "set (map response (aICache (snd (get sha now type content model w))))
     \<subseteq> set (map response (aICache w))"
  by (auto simp: get_def Let_def delete_def incrementHit_def split: option.splits if_splits)

lemma orElse_en [simp]: "orElse None ''en'' = orElse (Some ''en'') ''en''"
  by (simp add: orElse_def)

lemma transcribe_miss_success:
  assumes "readFile audioPath = Inr fileBuffer"
    and "fst (get (sha256 d) now ''transcription'' (transcriptionCacheKey (md5 d) fileBuffer language) ''whisper-1'' w) = None"
    and "create fileBuffer audioPath (orElse language ''en'') = Inr result"
  shows "transcribeAudioCached d readFile create now audioPath language video user w
           = (Inr result,
              storeEntry (sha256 d) now ''transcription'' (transcriptionCacheKey (md5 d) fileBuffer language)
                ''whisper-1'' result (Some 60) (Some (int (length fileBuffer)))
                (Some (int (length (stringify d result))))
                (trackUsage now ''transcription'' ''whisper-1'' None None (Some (duration result))
                   (Some False) video user
                   (emit (ProviderCall (TranscriptionsCreate ''whisper-1'' (orElse language ''en'')))
                      (snd (get (sha256 d) now ''transcription''
                              (transcriptionCacheKey (md5 d) fileBuffer language) ''whisper-1'' w)))))"
  using assms
  by (simp add: transcribeAudioCached_def Let_def case_prod_beta)

lemma transcribe_hit:
  assumes "readFile audioPath = Inr fileBuffer"
    and "fst (get (sha256 d) now ''transcription'' (transcriptionCacheKey (md5 d) fileBuffer language) ''whisper-1'' w) = Some c"
  shows "transcribeAudioCached d readFile create now audioPath language video user w
           = (Inr c,
              trackUsage now ''transcription'' ''whisper-1'' None None (Some (duration c))
                   (Some True) video user
                   (snd (get (sha256 d) now ''transcription''
                              (transcriptionCacheKey (md5 d) fileBuffer language) ''whisper-1'' w)))"
  using assms
  by (simp add: transcribeAudioCached_def Let_def case_prod_beta)

lemma highlights_miss_success:
  assumes "truthyHit (fst (get (sha256 d) now ''highlights''
             (md5 d (transcript @ '':'' @ stringify_segments segments)) ''gpt-4o-mini'' w)) = None"
    and "create segments = Inr r" and "validateHighlights parse r = Inr result"
  shows "generateHighlightsCached d stringify_segments parse create now transcript segments video user w
           = (Inr result,
              storeEntry (sha256 d) now ''highlights'' (md5 d (transcript @ '':'' @ stringify_segments segments))
                ''gpt-4o-mini'' result (Some 90) (Some (int (length transcript)))
                (Some (int (length (stringify d result))))
                (trackUsage now ''completion'' ''gpt-4o-mini'' (Some (prompt_tokens r))
                   (Some (completion_tokens r)) None (Some False) video user
                   (emit (ProviderCall (ChatCompletionsCreate ''gpt-4o-mini''))
                      (snd (get (sha256 d) now ''highlights''
                              (md5 d (transcript @ '':'' @ stringify_segments segments))
                              ''gpt-4o-mini'' w)))))"
  using assms
  by (simp add: generateHighlightsCached_def Let_def case_prod_beta)

lemma highlights_miss_failure:
  assumes "truthyHit (fst (get (sha256 d) now ''highlights''
             (md5 d (transcript @ '':'' @ stringify_segments segments)) ''gpt-4o-mini'' w)) = None"
    and "create segments = Inl e \<or> (\<exists>r. create segments = Inr r \<and> validateHighlights parse r = Inl e)"
  shows "generateHighlightsCached d stringify_segments parse create now transcript segments video user w
           = (Inl (failed ''Highlight generation failed'' e),
              emit (ProviderCall (ChatCompletionsCreate ''gpt-4o-mini''))
                (snd (get (sha256 d) now ''highlights''
                        (md5 d (transcript @ '':'' @ stringify_segments segments))
                        ''gpt-4o-mini'' w)))"
  using assms
  by (auto simp: generateHighlightsCached_def Let_def case_prod_beta)

lemma findUnique_append_fresh:
  assumes "findUnique h rows = None" and "inputHash new = h"
  shows "findUnique h (rows @ [new]) = Some new"
  using assms by (induction rows) (auto simp: findUnique_def split: if_splits)

lemma second_get_hits:
  assumes absent: "findUnique (generateHash sha content model) (aICache w) = None"
    and fresh: "later \<le> now + 60 * 24 * 60 * 60 * 1000"
  shows "get sha later type2 content model
           (storeEntry sha now type content model result (Some 60) i out w)
         = (Some result,
            incrementHit later (generateHash sha content model)
              (emit (CacheFind (generateHash sha content model))
                 (storeEntry sha now type content model result (Some 60) i out w)))"
proof -
  let ?h = "generateHash sha content model"
  let ?new = "\<lparr>c_type = type, inputHash = ?h, response = result, c_model = model,
      inputSize = i, outputSize = out, createdAt = now, updatedAt = now,
      expiresAt = expiresAfter now (Some 60), hitCount = 0\<rparr>"
  have rows: "aICache (storeEntry sha now type content model result (Some 60) i out w) = aICache w @ [?new]"
    by (rule storeEntry_fresh [OF absent])
  have found: "findUnique ?h (aICache (storeEntry sha now type content model result (Some 60) i out w)) = Some ?new"
    unfolding rows by (rule findUnique_append_fresh [OF absent]) simp
  have live: "\<not> expired later ?new"
    using fresh by (simp add: expired_def expiresAfter_def)
  show ?thesis
    using get_hit [OF found live, of type2] by simp
qed

lemma transcribe_twice:
  assumes rd: "readFile audioPath = Inr fileBuffer"
    and key: "transcriptionCacheKey (md5 d) fileBuffer l1 = transcriptionCacheKey (md5 d) fileBuffer l2"
    and miss: "fst (get (sha256 d) now ''transcription''
                  (transcriptionCacheKey (md5 d) fileBuffer l1) ''whisper-1'' w) = None"
    and ok: "create fileBuffer audioPath (orElse l1 ''en'') = Inr result"
    and fresh: "later \<le> now + 60 * 24 * 60 * 60 * 1000"
  shows "fst (transcribeAudioCached d readFile create' later audioPath l2 video' user'
               (snd (transcribeAudioCached d readFile create now audioPath l1 video user w)))
           = Inr result
         \<and> trace (snd (transcribeAudioCached d readFile create' later audioPath l2 video' user'
               (snd (transcribeAudioCached d readFile create now audioPath l1 video user w))))
           = trace (snd (transcribeAudioCached d readFile create now audioPath l1 video user w))
             @ [CacheFind (generateHash (sha256 d) (transcriptionCacheKey (md5 d) fileBuffer l2) ''whisper-1''),
                CacheUpdate (generateHash (sha256 d) (transcriptionCacheKey (md5 d) fileBuffer l2) ''whisper-1''),
                UsageCreate True]"
proof -
  let ?k = "transcriptionCacheKey (md5 d) fileBuffer l1"
  let ?h = "generateHash (sha256 d) ?k ''whisper-1''"
  let ?w1 = "snd (get (sha256 d) now ''transcription'' ?k ''whisper-1'' w)"
  let ?w3 = "trackUsage now ''transcription'' ''whisper-1'' None None (Some (duration result))
               (Some False) video user
               (emit (ProviderCall (TranscriptionsCreate ''whisper-1'' (orElse l1 ''en''))) ?w1)"
  let ?w4 = "storeEntry (sha256 d) now ''transcription'' ?k ''whisper-1'' result (Some 60)
               (Some (int (length fileBuffer))) (Some (int (length (stringify d result)))) ?w3"
  have first: "transcribeAudioCached d readFile create now audioPath l1 video user w = (Inr result, ?w4)"
    using transcribe_miss_success [where readFile = readFile and create = create and d = d
        and language = l1 and fileBuffer = fileBuffer and audioPath = audioPath, OF rd miss ok]
    by simp
  have absent: "findUnique ?h (aICache ?w3) = None"
    using get_None_cases [OF miss] by simp
  have hit: "get (sha256 d) later ''transcription'' ?k ''whisper-1'' ?w4
               = (Some result, incrementHit later ?h (emit (CacheFind ?h) ?w4))"
    by (rule second_get_hits [OF absent fresh])
  have second: "transcribeAudioCached d readFile create' later audioPath l2 video' user' ?w4
      = (Inr result,
         trackUsage later ''transcription'' ''whisper-1'' None None (Some (duration result))
           (Some True) video' user' (incrementHit later ?h (emit (CacheFind ?h) ?w4)))"
    using transcribe_hit [where readFile = readFile and audioPath = audioPath
        and fileBuffer = fileBuffer and d = d and now = later and language = l2 and w = ?w4
        and c = result and create = create' and video = video' and user = user'] rd hit
    by (simp add: key [symmetric])
  show ?thesis
    unfolding first snd_conv second
    by (simp add: incrementHit_def key [symmetric])
qed


lemma before_append_fresh:
  assumes "a \<notin> set xs"
  shows "before a b (xs @ ys) = before a b ys"
  using assms by (induction xs) auto

lemma highlights_key:
  "generateHash sha (md (transcript @ '':'' @ s)) ''gpt-4o-mini''
     = sha (''gpt-4o-mini:'' @ md (transcript @ '':'' @ s))"
  by (simp add: generateHash_def)


lemmas example_defs =
  plain_deps_def some_transcription_def one_file_def whisper_ok_def whisper_down_def
  some_highlights_def parse_ok_def chat_says_def chat_down_def segments_json_def empty_world_def

lemmas run_defs =
  get_def storeEntry_def trackUsage_def emit_def delete_def incrementHit_def upsert_def findUnique_def
  generateHash_def expired_def expiresAfter_def keep_def truthyHit_def truthy_def isArray_def
  getProp_def orElse_def firstContent_def validateHighlights_def parseTopics_def
  transcriptionCacheKey_def failed_def message_def Let_def


lemma get_length_le:
  "length (aICache (snd (get sha now type content model w))) \<le> length (aICache w)"
  by (auto simp: get_def Let_def delete_def incrementHit_def split: option.splits if_splits)

lemma validateHighlights_Inr:
  assumes "validateHighlights parse r = Inr result"
  shows "\<exists>kvs xs. result = JObj kvs \<and> map_of kvs ''highlights'' = Some (JArr xs)"
  using assms
  by (auto simp: validateHighlights_def getProp_def isArray_def
           split: sum.splits option.splits json.splits if_splits)


lemma validateHighlights_invalid:
  assumes "firstContent r = Inr content" and "parse (orElse content ''{}'') = Inr result"
    and "getProp result ''highlights'' = Inr None
         \<or> (\<exists>h. getProp result ''highlights'' = Inr (Some h) \<and> \<not> isArray h)"
  shows "validateHighlights parse r = Inl (Error ''Invalid highlights response format'')"
  using assms by (auto simp: validateHighlights_def)

lemma topics_miss_failure:
  assumes "truthyHit (fst (get (sha256 d) now ''topics'' (md5 d (''topics:'' @ transcript))
                             ''gpt-4o-mini'' w)) = None"
    and "create transcript = Inl e \<or> (\<exists>r. create transcript = Inr r \<and> parseTopics parse r = Inl e)"
  shows "extractKeyTopicsCached d parse create now transcript video user w
           = (Inr (JArr []),
              emit (ProviderCall (ChatCompletionsCreate ''gpt-4o-mini''))
                (snd (get (sha256 d) now ''topics'' (md5 d (''topics:'' @ transcript))
                        ''gpt-4o-mini'' w)))"
  using assms
  by (auto simp: extractKeyTopicsCached_def Let_def case_prod_beta)

lemma topics_never_throws:
  "\<exists>v. fst (extractKeyTopicsCached d parse create now transcript video user w) = Inr v"
  by (simp add: extractKeyTopicsCached_def Let_def case_prod_beta split: option.splits sum.splits)

text \<open>
  C10. The cache key of a transcription is the MD5 of the file, a colon and the language,
  \<open>en\<close> when the language is omitted: omitting the language and passing \<open>en\<close> give the
  same key and the same behaviour of \<open>transcribeAudioCached\<close>. After a call with one of
  them has missed the cache and stored the provider's result, a call with the other, made
  before the entry expires, returns that result from the cache: a lookup, a hit-count
  update and a usage record with \<open>cached = true\<close>, no provider call.
\<close>

theorem transcription_default_language_shares_entry:
  "transcriptionCacheKey md fileBuffer None = md fileBuffer @ '':'' @ ''en''
   \<and> transcriptionCacheKey md fileBuffer (Some ''en'') = md fileBuffer @ '':'' @ ''en''
   \<and> transcribeAudioCached d readFile create now audioPath None video user w
       = transcribeAudioCached d readFile create now audioPath (Some ''en'') video user w
   \<and> (readFile audioPath = Inr fileBuffer
       \<and> fst (get (sha256 d) now ''transcription''
                (transcriptionCacheKey (md5 d) fileBuffer (Some ''en'')) ''whisper-1'' w) = None
       \<and> create fileBuffer audioPath ''en'' = Inr result
       \<and> later \<le> now + 60 * 24 * 60 * 60 * 1000 \<longrightarrow>
         fst (transcribeAudioCached d readFile create' later audioPath None video' user'
               (snd (transcribeAudioCached d readFile create now audioPath (Some ''en'') video user w)))
           = Inr result
         \<and> trace (snd (transcribeAudioCached d readFile create' later audioPath None video' user'
               (snd (transcribeAudioCached d readFile create now audioPath (Some ''en'') video user w))))
           = trace (snd (transcribeAudioCached d readFile create now audioPath (Some ''en'') video user w))
             @ [CacheFind (generateHash (sha256 d) (md5 d fileBuffer @ '':'' @ ''en'') ''whisper-1''),
                CacheUpdate (generateHash (sha256 d) (md5 d fileBuffer @ '':'' @ ''en'') ''whisper-1''),
                UsageCreate True]
         \<and> fst (transcribeAudioCached d readFile create' later audioPath (Some ''en'') video' user'
               (snd (transcribeAudioCached d readFile create now audioPath None video user w)))
           = Inr result
         \<and> trace (snd (transcribeAudioCached d readFile create' later audioPath (Some ''en'') video' user'
               (snd (transcribeAudioCached d readFile create now audioPath None video user w))))
           = trace (snd (transcribeAudioCached d readFile create now audioPath None video user w))
             @ [CacheFind (generateHash (sha256 d) (md5 d fileBuffer @ '':'' @ ''en'') ''whisper-1''),
                CacheUpdate (generateHash (sha256 d) (md5 d fileBuffer @ '':'' @ ''en'') ''whisper-1''),
                UsageCreate True])"
proof (intro conjI impI)
  show kn: "transcriptionCacheKey md fileBuffer None = md fileBuffer @ '':'' @ ''en''"
    by (simp add: transcriptionCacheKey_def orElse_def)
  show ke: "transcriptionCacheKey md fileBuffer (Some ''en'') = md fileBuffer @ '':'' @ ''en''"
    by (simp add: transcriptionCacheKey_def orElse_def)
  show same: "transcribeAudioCached d readFile create now audioPath None video user w
       = transcribeAudioCached d readFile create now audioPath (Some ''en'') video user w"
  proof -
    have n: "orElse None ''en'' = ''en''" and e: "orElse (Some ''en'') ''en'' = ''en''"
      by (simp_all add: orElse_def)
    show ?thesis
      unfolding transcribeAudioCached_def transcriptionCacheKey_def n e ..
  qed
next
  assume a: "readFile audioPath = Inr fileBuffer
       \<and> fst (get (sha256 d) now ''transcription''
                (transcriptionCacheKey (md5 d) fileBuffer (Some ''en'')) ''whisper-1'' w) = None
       \<and> create fileBuffer audioPath ''en'' = Inr result
       \<and> later \<le> now + 60 * 24 * 60 * 60 * 1000"
  have k: "transcriptionCacheKey (md5 d) fileBuffer (Some ''en'') = transcriptionCacheKey (md5 d) fileBuffer None"
    by (simp add: transcriptionCacheKey_def)
  have kv: "transcriptionCacheKey (md5 d) fileBuffer None = md5 d fileBuffer @ '':'' @ ''en''"
    by (simp add: transcriptionCacheKey_def orElse_def)
  have ok1: "create fileBuffer audioPath (orElse (Some ''en'') ''en'') = Inr result"
    using a by (simp add: orElse_def)
  have ok2: "create fileBuffer audioPath (orElse None ''en'') = Inr result"
    using a by (simp add: orElse_def)
  have miss2: "fst (get (sha256 d) now ''transcription''
                (transcriptionCacheKey (md5 d) fileBuffer None) ''whisper-1'' w) = None"
    using a by (simp add: k)
  note t1 = transcribe_twice [of readFile audioPath fileBuffer d "Some ''en''" None now w create result later
      create' video' user' video user, OF _ k _ ok1]
  note t2 = transcribe_twice [of readFile audioPath fileBuffer d None "Some ''en''" now w create result later
      create' video' user' video user, OF _ k [symmetric] miss2 ok2]
  show "fst (transcribeAudioCached d readFile create' later audioPath None video' user'
               (snd (transcribeAudioCached d readFile create now audioPath (Some ''en'') video user w)))
           = Inr result"
    using t1 a by simp
  show "trace (snd (transcribeAudioCached d readFile create' later audioPath None video' user'
               (snd (transcribeAudioCached d readFile create now audioPath (Some ''en'') video user w))))
           = trace (snd (transcribeAudioCached d readFile create now audioPath (Some ''en'') video user w))
             @ [CacheFind (generateHash (sha256 d) (md5 d fileBuffer @ '':'' @ ''en'') ''whisper-1''),
                CacheUpdate (generateHash (sha256 d) (md5 d fileBuffer @ '':'' @ ''en'') ''whisper-1''),
                UsageCreate True]"
    using t1 a by (simp add: kv)
  show "fst (transcribeAudioCached d readFile create' later audioPath (Some ''en'') video' user'
               (snd (transcribeAudioCached d readFile create now audioPath None video user w)))
           = Inr result"
    using t2 a by simp
  show "trace (snd (transcribeAudioCached d readFile create' later audioPath (Some ''en'') video' user'
               (snd (transcribeAudioCached d readFile create now audioPath None video user w))))
           = trace (snd (transcribeAudioCached d readFile create now audioPath None video user w))
             @ [CacheFind (generateHash (sha256 d) (md5 d fileBuffer @ '':'' @ ''en'') ''whisper-1''),
                CacheUpdate (generateHash (sha256 d) (md5 d fileBuffer @ '':'' @ ''en'') ''whisper-1''),
                UsageCreate True]"
    using t2 a by (simp add: k kv)
qed

theorem transcription_default_language_shares_entry_witness:
  "fst (transcribeAudioCached plain_deps one_file whisper_down 1000 ''a.wav'' None None None
          (snd (transcribeAudioCached plain_deps one_file whisper_ok 0 ''a.wav'' (Some ''en'')
                  None None empty_world)))
     = Inr some_transcription
   \<and> fst (transcribeAudioCached plain_deps one_file whisper_down 1000 ''a.wav'' (Some ''en'') None None
          (snd (transcribeAudioCached plain_deps one_file whisper_ok 0 ''a.wav'' None
                  None None empty_world)))
     = Inr some_transcription"
proof -
  have rd: "one_file ''a.wav'' = Inr ''RIFF''"
    by (simp add: one_file_def)
  have miss: "fst (get (sha256 plain_deps) 0 ''transcription''
                (transcriptionCacheKey (md5 plain_deps) ''RIFF'' (Some ''en'')) ''whisper-1''
                (empty_world :: TranscriptionResponse world)) = None"
    by (simp add: get_def findUnique_def empty_world_def Let_def)
  have ok: "whisper_ok ''RIFF'' ''a.wav'' ''en'' = Inr some_transcription"
    by (simp add: whisper_ok_def)
  have fresh: "(1000::int) \<le> 0 + 60 * 24 * 60 * 60 * 1000"
    by simp
  show ?thesis
    using transcription_default_language_shares_entry
      [where readFile = one_file and audioPath = "''a.wav''" and fileBuffer = "''RIFF''"
         and d = plain_deps and now = 0 and w = empty_world and create = whisper_ok
         and result = some_transcription and later = 1000 and create' = whisper_down
         and video = None and user = None and video' = None and user' = None]
      rd miss ok fresh
    by blast
qed

text \<open>
  C2. When \<open>generateHighlightsCached\<close> reaches the provider (the lookup gave nothing usable)
  and the provider call throws \<open>e\<close>, or the response fails the parsing and validation with
  \<open>e\<close>, the caller receives the error \<open>Highlight generation failed: <message of e>\<close>;
  the usage table is unchanged, the cache table is as the lookup left it (no row and no
  payload that was not there), and the only call after the lookup is the provider call.
\<close>

theorem highlights_failure_writes_nothing:
  assumes called: "truthyHit (fst (get (sha256 d) now ''highlights''
             (md5 d (transcript @ '':'' @ stringify_segments segments)) ''gpt-4o-mini'' w)) = None"
    and fails: "create segments = Inl e
                \<or> (\<exists>r. create segments = Inr r \<and> validateHighlights parse r = Inl e)"
  shows "fst (generateHighlightsCached d stringify_segments parse create now transcript segments
                video user w)
           = Inl (Error (''Highlight generation failed: '' @ message e))
       \<and> aPIUsage (snd (generateHighlightsCached d stringify_segments parse create now transcript
                          segments video user w)) = aPIUsage w
       \<and> aICache (snd (generateHighlightsCached d stringify_segments parse create now transcript
                          segments video user w))
           = aICache (snd (get (sha256 d) now ''highlights''
                             (md5 d (transcript @ '':'' @ stringify_segments segments))
                             ''gpt-4o-mini'' w))
       \<and> set (map response (aICache (snd (generateHighlightsCached d stringify_segments parse
                          create now transcript segments video user w))))
           \<subseteq> set (map response (aICache w))
       \<and> length (aICache (snd (generateHighlightsCached d stringify_segments parse create now
                          transcript segments video user w))) \<le> length (aICache w)
       \<and> trace (snd (generateHighlightsCached d stringify_segments parse create now transcript
                          segments video user w))
           = trace (snd (get (sha256 d) now ''highlights''
                             (md5 d (transcript @ '':'' @ stringify_segments segments))
                             ''gpt-4o-mini'' w))
             @ [ProviderCall (ChatCompletionsCreate ''gpt-4o-mini'')]"
proof -
  have run: "generateHighlightsCached d stringify_segments parse create now transcript segments video user w
           = (Inl (failed ''Highlight generation failed'' e),
              emit (ProviderCall (ChatCompletionsCreate ''gpt-4o-mini''))
                (snd (get (sha256 d) now ''highlights''
                        (md5 d (transcript @ '':'' @ stringify_segments segments))
                        ''gpt-4o-mini'' w)))"
    using highlights_miss_failure [where create = create and d = d and parse = parse
        and stringify_segments = stringify_segments and segments = segments and e = e
        and transcript = transcript and w = w and now = now] called fails
    by simp
  show ?thesis
    unfolding run
    using get_response_subset [of "sha256 d" now "''highlights''"
            "md5 d (transcript @ '':'' @ stringify_segments segments)" "''gpt-4o-mini''" w]
          get_length_le [of "sha256 d" now "''highlights''"
            "md5 d (transcript @ '':'' @ stringify_segments segments)" "''gpt-4o-mini''" w]
    by (simp add: failed_def)
qed

theorem highlights_failure_writes_nothing_witness:
  "generateHighlightsCached plain_deps segments_json parse_ok chat_down 1000 ''talk'' [] None None
     empty_world
     = (Inl (Error ''Highlight generation failed: 429 rate limit''),
        \<lparr>aICache = [], aPIUsage = [],
         trace = [CacheFind ''gpt-4o-mini:talk:[]'',
                  ProviderCall (ChatCompletionsCreate ''gpt-4o-mini'')]\<rparr>)
   \<and> fst (generateHighlightsCached plain_deps segments_json parse_ok (chat_says ''{}'') 1000
            ''talk'' [] None None empty_world)
     = Inl (Error ''Highlight generation failed: Invalid highlights response format'')
   \<and> aPIUsage (snd (generateHighlightsCached plain_deps segments_json parse_ok (chat_says ''{}'')
            1000 ''talk'' [] None None empty_world)) = []
   \<and> aICache (snd (generateHighlightsCached plain_deps segments_json parse_ok (chat_says ''{}'')
            1000 ''talk'' [] None None empty_world)) = []"
proof -
  have called: "truthyHit (fst (get (sha256 plain_deps) 1000 ''highlights''
             (md5 plain_deps (''talk'' @ '':'' @ segments_json [])) ''gpt-4o-mini''
             (empty_world :: json world))) = None"
    by (simp add: get_def findUnique_def empty_world_def truthyHit_def Let_def)
  have down: "chat_down ([] :: Segment list) = Inl (Error ''429 rate limit'')"
    by (simp add: chat_down_def)
  have invalid: "\<exists>r. chat_says ''{}'' ([] :: Segment list) = Inr r
                    \<and> validateHighlights parse_ok r = Inl (Error ''Invalid highlights response format'')"
    by (simp add: example_defs run_defs)
  have a: "fst (generateHighlightsCached plain_deps segments_json parse_ok chat_down 1000 ''talk'' []
                  None None empty_world)
             = Inl (Error ''Highlight generation failed: 429 rate limit'')"
    using highlights_failure_writes_nothing [where create = chat_down and d = plain_deps
        and stringify_segments = segments_json and segments = "[]" and transcript = "''talk''"
        and now = 1000 and w = empty_world and e = "Error ''429 rate limit''" and parse = parse_ok
        and video = None and user = None, OF called disjI1 [OF down]]
    by (simp add: message_def)
  have b: "snd (generateHighlightsCached plain_deps segments_json parse_ok chat_down 1000 ''talk'' []
                  None None empty_world)
             = \<lparr>aICache = [], aPIUsage = [],
                trace = [CacheFind ''gpt-4o-mini:talk:[]'',
                         ProviderCall (ChatCompletionsCreate ''gpt-4o-mini'')]\<rparr>"
    by (simp add: generateHighlightsCached_def example_defs run_defs)
  have c: "fst (generateHighlightsCached plain_deps segments_json parse_ok (chat_says ''{}'') 1000
            ''talk'' [] None None empty_world)
     = Inl (Error ''Highlight generation failed: Invalid highlights response format'')
   \<and> aPIUsage (snd (generateHighlightsCached plain_deps segments_json parse_ok (chat_says ''{}'')
            1000 ''talk'' [] None None empty_world)) = []
   \<and> length (aICache (snd (generateHighlightsCached plain_deps segments_json parse_ok (chat_says ''{}'')
            1000 ''talk'' [] None None empty_world))) \<le> 0"
    using highlights_failure_writes_nothing [where create = "chat_says ''{}''" and d = plain_deps
        and stringify_segments = segments_json and segments = "[]" and transcript = "''talk''"
        and now = 1000 and w = empty_world and parse = parse_ok
        and e = "Error ''Invalid highlights response format''"
        and video = None and user = None, OF called disjI2 [OF invalid]]
    by (simp add: message_def empty_world_def get_def findUnique_def Let_def)
  from a b c show ?thesis by (simp add: prod_eq_iff)
qed

text \<open>
  C5. \<open>extractKeyTopicsCached\<close> never returns an error. When the provider call throws or
  the reading of its response throws, the result is the empty list and no usage record
  is written; the same failure in \<open>generateHighlightsCached\<close> is returned as an error.
\<close>

theorem topics_failure_swallowed:
  "(\<exists>v. fst (extractKeyTopicsCached d parse create now transcript video user w) = Inr v)
   \<and> (truthyHit (fst (get (sha256 d) now ''topics'' (md5 d (''topics:'' @ transcript))
                         ''gpt-4o-mini'' w)) = None
       \<and> (create transcript = Inl e
           \<or> (\<exists>r. create transcript = Inr r \<and> parseTopics parse r = Inl e)) \<longrightarrow>
         fst (extractKeyTopicsCached d parse create now transcript video user w) = Inr (JArr [])
         \<and> aPIUsage (snd (extractKeyTopicsCached d parse create now transcript video user w))
             = aPIUsage w)
   \<and> (truthyHit (fst (get (sha256 d) now ''highlights''
                         (md5 d (transcript @ '':'' @ stringify_segments segments))
                         ''gpt-4o-mini'' w)) = None
       \<and> (chat segments = Inl e
           \<or> (\<exists>r. chat segments = Inr r \<and> validateHighlights parse r = Inl e)) \<longrightarrow>
         fst (generateHighlightsCached d stringify_segments parse chat now transcript segments
                video user w)
           = Inl (Error (''Highlight generation failed: '' @ message e)))"
proof (intro conjI impI)
  show "\<exists>v. fst (extractKeyTopicsCached d parse create now transcript video user w) = Inr v"
    by (rule topics_never_throws)
next
  assume a: "truthyHit (fst (get (sha256 d) now ''topics'' (md5 d (''topics:'' @ transcript))
                         ''gpt-4o-mini'' w)) = None
       \<and> (create transcript = Inl e
           \<or> (\<exists>r. create transcript = Inr r \<and> parseTopics parse r = Inl e))"
  have run: "extractKeyTopicsCached d parse create now transcript video user w
           = (Inr (JArr []),
              emit (ProviderCall (ChatCompletionsCreate ''gpt-4o-mini''))
                (snd (get (sha256 d) now ''topics'' (md5 d (''topics:'' @ transcript))
                        ''gpt-4o-mini'' w)))"
    using topics_miss_failure [where create = create and d = d and parse = parse and e = e
        and transcript = transcript and w = w and now = now] a
    by simp
  show "fst (extractKeyTopicsCached d parse create now transcript video user w) = Inr (JArr [])"
    by (simp add: run)
  show "aPIUsage (snd (extractKeyTopicsCached d parse create now transcript video user w))
          = aPIUsage w"
    by (simp add: run)
next
  assume a: "truthyHit (fst (get (sha256 d) now ''highlights''
                         (md5 d (transcript @ '':'' @ stringify_segments segments))
                         ''gpt-4o-mini'' w)) = None
       \<and> (chat segments = Inl e
           \<or> (\<exists>r. chat segments = Inr r \<and> validateHighlights parse r = Inl e))"
  show "fst (generateHighlightsCached d stringify_segments parse chat now transcript segments
                video user w)
           = Inl (Error (''Highlight generation failed: '' @ message e))"
    using highlights_miss_failure [where create = chat and d = d and parse = parse
        and stringify_segments = stringify_segments and segments = segments and e = e
        and transcript = transcript and w = w and now = now] a
    by (simp add: failed_def)
qed

theorem topics_failure_swallowed_witness:
  "fst (extractKeyTopicsCached plain_deps parse_ok chat_down 1000 ''talk'' None None empty_world)
     = Inr (JArr [])
   \<and> fst (extractKeyTopicsCached plain_deps parse_ok (chat_says ''null'') 1000 ''talk'' None None
            empty_world) = Inr (JArr [])
   \<and> fst (generateHighlightsCached plain_deps segments_json parse_ok chat_down 1000 ''talk'' []
            None None empty_world)
     = Inl (Error ''Highlight generation failed: 429 rate limit'')"
proof -
  have called: "truthyHit (fst (get (sha256 plain_deps) 1000 ''topics''
             (md5 plain_deps (''topics:'' @ ''talk'')) ''gpt-4o-mini''
             (empty_world :: json world))) = None"
    by (simp add: get_def findUnique_def empty_world_def truthyHit_def Let_def)
  have called': "truthyHit (fst (get (sha256 plain_deps) 1000 ''highlights''
             (md5 plain_deps (''talk'' @ '':'' @ segments_json [])) ''gpt-4o-mini''
             (empty_world :: json world))) = None"
    by (simp add: get_def findUnique_def empty_world_def truthyHit_def Let_def)
  have down: "chat_down ''talk'' = Inl (Error ''429 rate limit'')"
    by (simp add: chat_down_def)
  have down': "chat_down ([] :: Segment list) = Inl (Error ''429 rate limit'')"
    by (simp add: chat_down_def)
  have null: "\<exists>r. chat_says ''null'' ''talk'' = Inr r
               \<and> parseTopics parse_ok r
                   = Inl (Error ''Cannot read properties of null (reading topics)'')"
    by (simp add: example_defs run_defs)
  have a: "fst (extractKeyTopicsCached plain_deps parse_ok chat_down 1000 ''talk'' None None
                  empty_world) = Inr (JArr [])"
    using called down
      topics_failure_swallowed [where create = chat_down and d = plain_deps and parse = parse_ok
        and e = "Error ''429 rate limit''" and transcript = "''talk''" and w = empty_world
        and now = 1000 and video = None and user = None]
    by blast
  have b: "fst (extractKeyTopicsCached plain_deps parse_ok (chat_says ''null'') 1000 ''talk'' None
                  None empty_world) = Inr (JArr [])"
    using called null
      topics_failure_swallowed [where create = "chat_says ''null''" and d = plain_deps
        and parse = parse_ok and e = "Error ''Cannot read properties of null (reading topics)''"
        and transcript = "''talk''" and w = empty_world
        and now = 1000 and video = None and user = None]
    by blast
  have c: "fst (generateHighlightsCached plain_deps segments_json parse_ok chat_down 1000 ''talk'' []
            None None empty_world)
     = Inl (Error (''Highlight generation failed: '' @ message (Error ''429 rate limit'')))"
    using called' down'
      topics_failure_swallowed [where chat = chat_down and d = plain_deps and parse = parse_ok
        and e = "Error ''429 rate limit''" and transcript = "''talk''" and w = empty_world
        and stringify_segments = segments_json and segments = "[]"
        and now = 1000 and video = None and user = None]
    by blast
  from a b c show ?thesis by (simp add: message_def)
qed

section \<open>Properties of the embeddings loop\<close>

declare embeddingsLoop.simps [simp del] batchesFrom.simps [simp del]

lemma embeddingsLoop_runBatches:
  "embeddingsLoop body texts i acc w = runBatches body (batchesFrom texts i) acc w"
proof (induction body texts i acc w rule: embeddingsLoop.induct)
  case (1 body texts i embeddings w)
  show ?case
  proof (cases "i < length texts")
    case True
    then show ?thesis
      using "1.IH"
      by (subst embeddingsLoop.simps, subst batchesFrom.simps)
         (auto split: prod.splits sum.splits)
  next
    case False
    then show ?thesis
      by (subst embeddingsLoop.simps, subst batchesFrom.simps) simp
  qed
qed


lemma div_step:
  assumes "0 < (B::nat)" and "i < (n::nat)"
  shows "(n - i + (B - 1)) div B = Suc ((n - (i + B) + (B - 1)) div B)"
proof (cases "i + B \<le> n")
  case True
  then have "n - i + (B - 1) = (n - (i + B) + (B - 1)) + B" by arith
  moreover have "((n - (i + B) + (B - 1)) + B) div B = (n - (i + B) + (B - 1)) div B + 1"
    using assms(1) by (simp only: div_add_self2)
  ultimately show ?thesis by (simp only: Suc_eq_plus1)
next
  case False
  with assms have a: "B * 1 \<le> n - i + (B - 1)" and b: "n - i + (B - 1) < B * Suc 1"
    and c: "n - (i + B) + (B - 1) < B"
    by simp_all
  from a b have "(n - i + (B - 1)) div B = 1"
    by (rule div_nat_eqI)
  moreover from c have "(n - (i + B) + (B - 1)) div B = 0"
    by (rule div_less)
  ultimately show ?thesis by (simp only: One_nat_def)
qed

lemma batchSize_pos: "0 < batchSize"
  by (simp add: batchSize_def)

lemma batchesFrom_closed:
  "batchesFrom texts i
     = map (\<lambda>k. slice texts (i + k * batchSize) (i + k * batchSize + batchSize))
         [0..<(length texts - i + (batchSize - 1)) div batchSize]"
proof (induction texts i rule: batchesFrom.induct)
  case (1 texts i)
  show ?case
  proof (cases "i < length texts")
    case True
    let ?m = "(length texts - (i + batchSize) + (batchSize - 1)) div batchSize"
    have n: "(length texts - i + (batchSize - 1)) div batchSize = Suc ?m"
      by (rule div_step [OF batchSize_pos True])
    have u: "[0..<Suc ?m] = 0 # map Suc [0..<?m]"
      by (simp only: upt_conv_Cons [OF zero_less_Suc] map_Suc_upt)
    have "batchesFrom texts i = slice texts i (i + batchSize) # batchesFrom texts (i + batchSize)"
      using True by (subst batchesFrom.simps) simp
    also have "batchesFrom texts (i + batchSize)
        = map (\<lambda>k. slice texts (i + batchSize + k * batchSize) (i + batchSize + k * batchSize + batchSize))
            [0..<?m]"
      using "1.IH" [OF True] .
    also have "slice texts i (i + batchSize) # \<dots>
        = map (\<lambda>k. slice texts (i + k * batchSize) (i + k * batchSize + batchSize)) (0 # map Suc [0..<?m])"
      by (simp add: comp_def add.assoc add.left_commute add.commute del: upt_Suc)
    finally show ?thesis
      by (simp only: n u)
  next
    case False
    then have "(length texts - i + (batchSize - 1)) div batchSize = 0"
      using batchSize_pos by simp
    with False show ?thesis
      by (subst batchesFrom.simps) simp
  qed
qed






lemma outcomes_append: "outcomes (xs @ ys) = outcomes xs @ outcomes ys"
  by (induction xs rule: outcomes.induct) simp_all


lemma embedBatch_hit:
  assumes "fst (get (sha256 d) now ''embeddings'' (batchKey (md5 d) stringify_texts batch)
                  ''text-embedding-3-small'' w) = Some c"
  shows "embedBatch d stringify_texts create now video user batch w
           = (Inr c,
              trackUsage now ''embedding'' ''text-embedding-3-small''
                (Some (real (length (join '' '' batch)) / 4)) None None (Some True) video user
                (snd (get (sha256 d) now ''embeddings'' (batchKey (md5 d) stringify_texts batch)
                        ''text-embedding-3-small'' w)))"
  using assms by (simp add: embedBatch_def Let_def case_prod_beta)

lemma embedBatch_miss_ok:
  assumes "fst (get (sha256 d) now ''embeddings'' (batchKey (md5 d) stringify_texts batch)
                  ''text-embedding-3-small'' w) = None"
    and "create batch = Inr r"
  shows "embedBatch d stringify_texts create now video user batch w
           = (Inr (data r),
              storeEntry (sha256 d) now ''embeddings'' (batchKey (md5 d) stringify_texts batch)
                ''text-embedding-3-small'' (data r) (Some 180)
                (Some (int (length (join '' '' batch))))
                (Some (int (length (stringify d (data r)))))
                (trackUsage now ''embedding'' ''text-embedding-3-small''
                   (Some (num (usage_prompt_tokens r))) None None (Some False) video user
                   (emit (ProviderCall (EmbeddingsCreate ''text-embedding-3-small'' batch))
                      (snd (get (sha256 d) now ''embeddings''
                              (batchKey (md5 d) stringify_texts batch)
                              ''text-embedding-3-small'' w)))))"
  using assms by (simp add: embedBatch_def Let_def case_prod_beta)




lemma cacheAgrees_iff:
  "cacheAgrees e key batches rows
     \<longleftrightarrow> (\<forall>c\<in>set rows. \<forall>b\<in>set batches. inputHash c = key b \<longrightarrow> response c = map e b)"
  by (auto simp: cacheAgrees_def list_all_iff)

lemma cacheAgrees_filter:
  "cacheAgrees e key batches rows \<Longrightarrow> cacheAgrees e key batches (filter P rows)"
  by (simp add: cacheAgrees_iff)

lemma cacheAgrees_map:
  assumes "cacheAgrees e key batches rows"
    and "\<And>c. inputHash (f c) = inputHash c" and "\<And>c. response (f c) = response c"
  shows "cacheAgrees e key batches (map (\<lambda>c. if inputHash c = h then f c else c) rows)"
  using assms by (auto simp: cacheAgrees_iff)






lemma generateEmbeddingsCached_runBatches:
  "generateEmbeddingsCached d stringify_texts create now texts video user w
     = (case runBatches (embedBatch d stringify_texts create now video user) (batchesFrom texts 0) [] w of
          (Inl e, w') \<Rightarrow> (Inl (failed ''Embedding generation failed'' e), w')
        | (Inr embeddings, w') \<Rightarrow> (Inr embeddings, w'))"
  by (simp add: generateEmbeddingsCached_def embeddingsLoop_runBatches)

subsection \<open>The order of the calls on a miss\<close>

lemma get_trace:
  "trace (snd (get sha now type content model w)) = trace w @ lookupEvents sha now content model w"
  by (simp add: get_def lookupEvents_def Let_def delete_def incrementHit_def split: option.splits)

lemma summary_miss_success:
  assumes "truthyText (fst (get (sha256 d) now ''summary'' (md5 d transcript) ''gpt-4o-mini'' w)) = None"
    and "create transcript = Inr r" and "firstContent r = Inr content"
  shows "generateSummaryCached d create now transcript video user w
           = (Inr (orElse content []),
              storeEntry (sha256 d) now ''summary'' (md5 d transcript) ''gpt-4o-mini''
                (orElse content []) (Some 60) (Some (int (length transcript)))
                (Some (int (length (orElse content []))))
                (trackUsage now ''completion'' ''gpt-4o-mini'' (Some (prompt_tokens r))
                   (Some (completion_tokens r)) None (Some False) video user
                   (emit (ProviderCall (ChatCompletionsCreate ''gpt-4o-mini''))
                      (snd (get (sha256 d) now ''summary'' (md5 d transcript) ''gpt-4o-mini'' w)))))"
  using assms
  by (simp add: generateSummaryCached_def Let_def case_prod_beta)

lemma topics_miss_success:
  assumes "truthyHit (fst (get (sha256 d) now ''topics'' (md5 d (''topics:'' @ transcript))
                             ''gpt-4o-mini'' w)) = None"
    and "create transcript = Inr r" and "parseTopics parse r = Inr topics"
  shows "extractKeyTopicsCached d parse create now transcript video user w
           = (Inr topics,
              storeEntry (sha256 d) now ''topics'' (md5 d (''topics:'' @ transcript)) ''gpt-4o-mini''
                topics (Some 60) (Some (int (length transcript)))
                (Some (int (length (stringify d topics))))
                (trackUsage now ''completion'' ''gpt-4o-mini'' (Some (prompt_tokens r))
                   (Some (completion_tokens r)) None (Some False) video user
                   (emit (ProviderCall (ChatCompletionsCreate ''gpt-4o-mini''))
                      (snd (get (sha256 d) now ''topics'' (md5 d (''topics:'' @ transcript))
                              ''gpt-4o-mini'' w)))))"
  using assms
  by (simp add: extractKeyTopicsCached_def Let_def case_prod_beta)

text \<open>
  C4 (as amended). In each of the five cached services (\<open>transcribeAudioCached\<close>,
  \<open>generateHighlightsCached\<close>, \<open>generateSummaryCached\<close>, \<open>extractKeyTopicsCached\<close> and
  the loop body of \<open>generateEmbeddingsCached\<close>, one batch), an invocation in which the
  lookup returns nothing that passes \<open>if (cached)\<close> and the provider's answer is accepted
  returns that answer, and its calls occur in the order: cache lookup under the
  fingerprint (\<open>lookupEvents\<close>: the find, then the delete of a stale entry or the
  hit-count update of a live one whose payload is falsy), provider call, usage record with
  \<open>cached = false\<close>, cache store. The usage record is written before the cache entry.
\<close>

theorem miss_records_usage_then_stores:
  "(readFile audioPath = Inr fileBuffer
    \<and> fst (get (sha256 d) now ''transcription''
             (transcriptionCacheKey (md5 d) fileBuffer language) ''whisper-1'' w) = None
    \<and> create fileBuffer audioPath (orElse language ''en'') = Inr result \<longrightarrow>
      fst (transcribeAudioCached d readFile create now audioPath language video user w) = Inr result
      \<and> trace (snd (transcribeAudioCached d readFile create now audioPath language video user w))
          = trace w
            @ lookupEvents (sha256 d) now (transcriptionCacheKey (md5 d) fileBuffer language)
                ''whisper-1'' w
            @ [ProviderCall (TranscriptionsCreate ''whisper-1'' (orElse language ''en'')),
               UsageCreate False,
               CacheUpsert (generateHash (sha256 d)
                           (transcriptionCacheKey (md5 d) fileBuffer language) ''whisper-1'')])
   \<and> (truthyHit (fst (get (sha256 dh) now ''highlights''
             (md5 dh (transcript @ '':'' @ stringify_segments segments)) ''gpt-4o-mini'' wh)) = None
      \<and> chat segments = Inr rh \<and> validateHighlights parse rh = Inr highlights \<longrightarrow>
      fst (generateHighlightsCached dh stringify_segments parse chat now transcript segments
             video user wh) = Inr highlights
      \<and> trace (snd (generateHighlightsCached dh stringify_segments parse chat now transcript
                       segments video user wh))
          = trace wh
            @ lookupEvents (sha256 dh) now
                (md5 dh (transcript @ '':'' @ stringify_segments segments)) ''gpt-4o-mini'' wh
            @ [ProviderCall (ChatCompletionsCreate ''gpt-4o-mini''),
               UsageCreate False,
               CacheUpsert (generateHash (sha256 dh)
                           (md5 dh (transcript @ '':'' @ stringify_segments segments))
                           ''gpt-4o-mini'')])
   \<and> (truthyText (fst (get (sha256 ds) now ''summary'' (md5 ds transcript) ''gpt-4o-mini'' ws))
        = None
      \<and> summarise transcript = Inr rs \<and> firstContent rs = Inr content \<longrightarrow>
      fst (generateSummaryCached ds summarise now transcript video user ws)
        = Inr (orElse content [])
      \<and> trace (snd (generateSummaryCached ds summarise now transcript video user ws))
          = trace ws
            @ lookupEvents (sha256 ds) now (md5 ds transcript) ''gpt-4o-mini'' ws
            @ [ProviderCall (ChatCompletionsCreate ''gpt-4o-mini''),
               UsageCreate False,
               CacheUpsert (generateHash (sha256 ds) (md5 ds transcript) ''gpt-4o-mini'')])
   \<and> (truthyHit (fst (get (sha256 dt) now ''topics'' (md5 dt (''topics:'' @ transcript))
                         ''gpt-4o-mini'' wt)) = None
      \<and> askTopics transcript = Inr rt \<and> parseTopics parse rt = Inr topics \<longrightarrow>
      fst (extractKeyTopicsCached dt parse askTopics now transcript video user wt) = Inr topics
      \<and> trace (snd (extractKeyTopicsCached dt parse askTopics now transcript video user wt))
          = trace wt
            @ lookupEvents (sha256 dt) now (md5 dt (''topics:'' @ transcript)) ''gpt-4o-mini'' wt
            @ [ProviderCall (ChatCompletionsCreate ''gpt-4o-mini''),
               UsageCreate False,
               CacheUpsert (generateHash (sha256 dt) (md5 dt (''topics:'' @ transcript))
                           ''gpt-4o-mini'')])
   \<and> (fst (get (sha256 de) now ''embeddings'' (batchKey (md5 de) stringify_texts batch)
               ''text-embedding-3-small'' we) = None
      \<and> embedTexts batch = Inr re \<longrightarrow>
      fst (embedBatch de stringify_texts embedTexts now video user batch we) = Inr (data re)
      \<and> trace (snd (embedBatch de stringify_texts embedTexts now video user batch we))
          = trace we
            @ lookupEvents (sha256 de) now (batchKey (md5 de) stringify_texts batch)
                ''text-embedding-3-small'' we
            @ [ProviderCall (EmbeddingsCreate ''text-embedding-3-small'' batch),
               UsageCreate False,
               CacheUpsert (generateHash (sha256 de) (batchKey (md5 de) stringify_texts batch)
                           ''text-embedding-3-small'')])"
proof (intro conjI impI)
  assume a: "readFile audioPath = Inr fileBuffer
    \<and> fst (get (sha256 d) now ''transcription''
             (transcriptionCacheKey (md5 d) fileBuffer language) ''whisper-1'' w) = None
    \<and> create fileBuffer audioPath (orElse language ''en'') = Inr result"
  note run = transcribe_miss_success [where readFile = readFile and create = create and d = d
        and language = language and fileBuffer = fileBuffer and audioPath = audioPath
        and now = now and w = w and result = result and video = video and user = user]
  show "fst (transcribeAudioCached d readFile create now audioPath language video user w) = Inr result"
    using a by (simp add: run)
  show "trace (snd (transcribeAudioCached d readFile create now audioPath language video user w))
          = trace w
            @ lookupEvents (sha256 d) now (transcriptionCacheKey (md5 d) fileBuffer language)
                ''whisper-1'' w
            @ [ProviderCall (TranscriptionsCreate ''whisper-1'' (orElse language ''en'')),
               UsageCreate False,
               CacheUpsert (generateHash (sha256 d)
                           (transcriptionCacheKey (md5 d) fileBuffer language) ''whisper-1'')]"
    using a by (simp add: run get_trace)
next
  assume a: "truthyHit (fst (get (sha256 dh) now ''highlights''
             (md5 dh (transcript @ '':'' @ stringify_segments segments)) ''gpt-4o-mini'' wh)) = None
      \<and> chat segments = Inr rh \<and> validateHighlights parse rh = Inr highlights"
  note run = highlights_miss_success [where create = chat and d = dh and parse = parse
        and stringify_segments = stringify_segments and segments = segments and r = rh
        and result = highlights and transcript = transcript and w = wh and now = now
        and video = video and user = user]
  show "fst (generateHighlightsCached dh stringify_segments parse chat now transcript segments
             video user wh) = Inr highlights"
    using a by (simp add: run)
  show "trace (snd (generateHighlightsCached dh stringify_segments parse chat now transcript
                       segments video user wh))
          = trace wh
            @ lookupEvents (sha256 dh) now
                (md5 dh (transcript @ '':'' @ stringify_segments segments)) ''gpt-4o-mini'' wh
            @ [ProviderCall (ChatCompletionsCreate ''gpt-4o-mini''),
               UsageCreate False,
               CacheUpsert (generateHash (sha256 dh)
                           (md5 dh (transcript @ '':'' @ stringify_segments segments))
                           ''gpt-4o-mini'')]"
    using a by (simp add: run get_trace)
next
  assume a: "truthyText (fst (get (sha256 ds) now ''summary'' (md5 ds transcript) ''gpt-4o-mini'' ws))
        = None
      \<and> summarise transcript = Inr rs \<and> firstContent rs = Inr content"
  note run = summary_miss_success [where create = summarise and d = ds and r = rs
        and content = content and transcript = transcript and w = ws and now = now
        and video = video and user = user]
  show "fst (generateSummaryCached ds summarise now transcript video user ws)
        = Inr (orElse content [])"
    using a by (simp add: run)
  show "trace (snd (generateSummaryCached ds summarise now transcript video user ws))
          = trace ws
            @ lookupEvents (sha256 ds) now (md5 ds transcript) ''gpt-4o-mini'' ws
            @ [ProviderCall (ChatCompletionsCreate ''gpt-4o-mini''),
               UsageCreate False,
               CacheUpsert (generateHash (sha256 ds) (md5 ds transcript) ''gpt-4o-mini'')]"
    using a by (simp add: run get_trace)
next
  assume a: "truthyHit (fst (get (sha256 dt) now ''topics'' (md5 dt (''topics:'' @ transcript))
                         ''gpt-4o-mini'' wt)) = None
      \<and> askTopics transcript = Inr rt \<and> parseTopics parse rt = Inr topics"
  note run = topics_miss_success [where create = askTopics and d = dt and parse = parse and r = rt
        and topics = topics and transcript = transcript and w = wt and now = now
        and video = video and user = user]
  show "fst (extractKeyTopicsCached dt parse askTopics now transcript video user wt) = Inr topics"
    using a by (simp add: run)
  show "trace (snd (extractKeyTopicsCached dt parse askTopics now transcript video user wt))
          = trace wt
            @ lookupEvents (sha256 dt) now (md5 dt (''topics:'' @ transcript)) ''gpt-4o-mini'' wt
            @ [ProviderCall (ChatCompletionsCreate ''gpt-4o-mini''),
               UsageCreate False,
               CacheUpsert (generateHash (sha256 dt) (md5 dt (''topics:'' @ transcript))
                           ''gpt-4o-mini'')]"
    using a by (simp add: run get_trace)
next
  assume a: "fst (get (sha256 de) now ''embeddings'' (batchKey (md5 de) stringify_texts batch)
               ''text-embedding-3-small'' we) = None
      \<and> embedTexts batch = Inr re"
  note run = embedBatch_miss_ok [where create = embedTexts and d = de and stringify_texts = stringify_texts
        and batch = batch and r = re and w = we and now = now and video = video and user = user]
  show "fst (embedBatch de stringify_texts embedTexts now video user batch we) = Inr (data re)"
    using a by (simp add: run)
  show "trace (snd (embedBatch de stringify_texts embedTexts now video user batch we))
          = trace we
            @ lookupEvents (sha256 de) now (batchKey (md5 de) stringify_texts batch)
                ''text-embedding-3-small'' we
            @ [ProviderCall (EmbeddingsCreate ''text-embedding-3-small'' batch),
               UsageCreate False,
               CacheUpsert (generateHash (sha256 de) (batchKey (md5 de) stringify_texts batch)
                           ''text-embedding-3-small'')]"
    using a by (simp add: run get_trace)
qed

theorem miss_records_usage_then_stores_witness:
  "trace (snd (transcribeAudioCached plain_deps one_file whisper_ok 1000 ''a.wav'' None None None
                 empty_world))
     = [CacheFind ''whisper-1:RIFF:en'', ProviderCall (TranscriptionsCreate ''whisper-1'' ''en''),
        UsageCreate False, CacheUpsert ''whisper-1:RIFF:en'']
   \<and> trace (snd (generateHighlightsCached plain_deps segments_json parse_ok (chat_says ''good'')
                 1000 ''talk'' [] None None empty_world))
     = [CacheFind ''gpt-4o-mini:talk:[]'', ProviderCall (ChatCompletionsCreate ''gpt-4o-mini''),
        UsageCreate False, CacheUpsert ''gpt-4o-mini:talk:[]'']
   \<and> trace (snd (generateSummaryCached plain_deps (chat_says ''short'') 1000 ''talk'' None None
                 empty_world))
     = [CacheFind ''gpt-4o-mini:talk'', ProviderCall (ChatCompletionsCreate ''gpt-4o-mini''),
        UsageCreate False, CacheUpsert ''gpt-4o-mini:talk'']
   \<and> trace (snd (extractKeyTopicsCached plain_deps parse_ok (chat_says ''good'') 1000 ''talk''
                 None None empty_world))
     = [CacheFind ''gpt-4o-mini:topics:talk'', ProviderCall (ChatCompletionsCreate ''gpt-4o-mini''),
        UsageCreate False, CacheUpsert ''gpt-4o-mini:topics:talk'']
   \<and> trace (snd (embedBatch plain_deps unary_json embed_ok 1000 None None [''a''] empty_world))
     = [CacheFind ''text-embedding-3-small:#:text-embedding-3-small'',
        ProviderCall (EmbeddingsCreate ''text-embedding-3-small'' [''a'']),
        UsageCreate False, CacheUpsert ''text-embedding-3-small:#:text-embedding-3-small'']"
proof -
  have rd: "one_file ''a.wav'' = Inr ''RIFF''"
    by (simp add: one_file_def)
  have miss: "fst (get (sha256 plain_deps) 1000 ''transcription''
                (transcriptionCacheKey (md5 plain_deps) ''RIFF'' None) ''whisper-1''
                (empty_world :: TranscriptionResponse world)) = None"
    by (simp add: get_def findUnique_def empty_world_def Let_def)
  have ok: "whisper_ok ''RIFF'' ''a.wav'' (orElse None ''en'') = Inr some_transcription"
    by (simp add: whisper_ok_def)
  have missh: "truthyHit (fst (get (sha256 plain_deps) 1000 ''highlights''
             (md5 plain_deps (''talk'' @ '':'' @ segments_json [])) ''gpt-4o-mini''
             (empty_world :: json world))) = None"
    by (simp add: get_def findUnique_def empty_world_def Let_def truthyHit_def)
  have chat: "chat_says ''good'' ([] :: Segment list)
                = Inr \<lparr>choices = [Some ''good''], usage = Some (120, 40)\<rparr>"
    by (simp add: chat_says_def)
  have valid: "validateHighlights parse_ok \<lparr>choices = [Some ''good''], usage = Some (120, 40)\<rparr>
                 = Inr some_highlights"
    by (simp add: example_defs run_defs)
  have misss: "truthyText (fst (get (sha256 plain_deps) 1000 ''summary''
             (md5 plain_deps ''talk'') ''gpt-4o-mini'' (empty_world :: string world))) = None"
    by (simp add: get_def findUnique_def empty_world_def Let_def truthyText_def)
  have says: "chat_says ''short'' ''talk''
                = Inr \<lparr>choices = [Some ''short''], usage = Some (120, 40)\<rparr>"
    by (simp add: chat_says_def)
  have first: "firstContent \<lparr>choices = [Some ''short''], usage = Some (120, 40)\<rparr>
                 = Inr (Some ''short'')"
    by (simp add: firstContent_def)
  have misst: "truthyHit (fst (get (sha256 plain_deps) 1000 ''topics''
             (md5 plain_deps (''topics:'' @ ''talk'')) ''gpt-4o-mini''
             (empty_world :: json world))) = None"
    by (simp add: get_def findUnique_def empty_world_def Let_def truthyHit_def)
  have asks: "chat_says ''good'' ''talk''
                = Inr \<lparr>choices = [Some ''good''], usage = Some (120, 40)\<rparr>"
    by (simp add: chat_says_def)
  have topics: "parseTopics parse_ok \<lparr>choices = [Some ''good''], usage = Some (120, 40)\<rparr>
                 = Inr (JArr [])"
    by (simp add: example_defs run_defs)
  have misse: "fst (get (sha256 plain_deps) 1000 ''embeddings''
             (batchKey (md5 plain_deps) unary_json [''a'']) ''text-embedding-3-small''
             (empty_world :: real list list world)) = None"
    by (simp add: get_def findUnique_def empty_world_def Let_def)
  have emb: "embed_ok [''a'']
               = Inr \<lparr>data = map text_vector [''a''], usage_prompt_tokens = Some 7\<rparr>"
    by (simp add: embed_ok_def)
  note inst = miss_records_usage_then_stores
      [where readFile = one_file and audioPath = "''a.wav''" and fileBuffer = "''RIFF''"
         and d = plain_deps and now = 1000 and w = empty_world and create = whisper_ok
         and language = None and result = some_transcription and video = None and user = None
         and dh = plain_deps and transcript = "''talk''" and segments = "[]"
         and stringify_segments = segments_json and wh = empty_world
         and chat = "chat_says ''good''" and parse = parse_ok and highlights = some_highlights
         and rh = "\<lparr>choices = [Some ''good''], usage = Some (120, 40)\<rparr>"
         and ds = plain_deps and ws = empty_world and summarise = "chat_says ''short''"
         and rs = "\<lparr>choices = [Some ''short''], usage = Some (120, 40)\<rparr>"
         and content = "Some ''short''"
         and dt = plain_deps and wt = empty_world and askTopics = "chat_says ''good''"
         and rt = "\<lparr>choices = [Some ''good''], usage = Some (120, 40)\<rparr>"
         and topics = "JArr []"
         and de = plain_deps and we = empty_world and embedTexts = embed_ok
         and stringify_texts = unary_json and batch = "[''a'']"
         and re = "\<lparr>data = map text_vector [''a''], usage_prompt_tokens = Some 7\<rparr>"]
  have a: "trace (snd (transcribeAudioCached plain_deps one_file whisper_ok 1000 ''a.wav'' None None None
                 empty_world))
     = [CacheFind ''whisper-1:RIFF:en'', ProviderCall (TranscriptionsCreate ''whisper-1'' ''en''),
        UsageCreate False, CacheUpsert ''whisper-1:RIFF:en'']"
    using rd miss ok inst
    by (simp add: lookupEvents_def findUnique_def generateHash_def transcriptionCacheKey_def
          orElse_def plain_deps_def empty_world_def)
  have b: "trace (snd (generateHighlightsCached plain_deps segments_json parse_ok (chat_says ''good'')
                 1000 ''talk'' [] None None empty_world))
     = [CacheFind ''gpt-4o-mini:talk:[]'', ProviderCall (ChatCompletionsCreate ''gpt-4o-mini''),
        UsageCreate False, CacheUpsert ''gpt-4o-mini:talk:[]'']"
    using missh chat valid inst
    by (simp add: lookupEvents_def findUnique_def generateHash_def segments_json_def
          plain_deps_def empty_world_def)
  have c: "trace (snd (generateSummaryCached plain_deps (chat_says ''short'') 1000 ''talk'' None None
                 empty_world))
     = [CacheFind ''gpt-4o-mini:talk'', ProviderCall (ChatCompletionsCreate ''gpt-4o-mini''),
        UsageCreate False, CacheUpsert ''gpt-4o-mini:talk'']"
    using misss says first inst
    by (simp add: lookupEvents_def findUnique_def generateHash_def plain_deps_def empty_world_def)
  have e: "trace (snd (extractKeyTopicsCached plain_deps parse_ok (chat_says ''good'') 1000 ''talk''
                 None None empty_world))
     = [CacheFind ''gpt-4o-mini:topics:talk'', ProviderCall (ChatCompletionsCreate ''gpt-4o-mini''),
        UsageCreate False, CacheUpsert ''gpt-4o-mini:topics:talk'']"
    using misst asks topics inst
    by (simp add: lookupEvents_def findUnique_def generateHash_def plain_deps_def empty_world_def)
  have f: "trace (snd (embedBatch plain_deps unary_json embed_ok 1000 None None [''a''] empty_world))
     = [CacheFind ''text-embedding-3-small:#:text-embedding-3-small'',
        ProviderCall (EmbeddingsCreate ''text-embedding-3-small'' [''a'']),
        UsageCreate False, CacheUpsert ''text-embedding-3-small:#:text-embedding-3-small'']"
    using misse emb inst
    by (simp add: lookupEvents_def findUnique_def generateHash_def batchKey_def unary_json_def
          plain_deps_def empty_world_def)
  show ?thesis
    using a b c e f by simp
qed

text \<open>
  A highlight generation on an empty cache: the store does not come before the usage
  record, the usage record comes before the store.
\<close>

theorem store_before_record_counterexample:
  "fst (generateHighlightsCached plain_deps segments_json parse_ok (chat_says ''good'')
          1000 ''talk'' [] None None empty_world) = Inr some_highlights
   \<and> trace (snd (generateHighlightsCached plain_deps segments_json parse_ok (chat_says ''good'')
                 1000 ''talk'' [] None None empty_world))
     = [CacheFind ''gpt-4o-mini:talk:[]'', ProviderCall (ChatCompletionsCreate ''gpt-4o-mini''),
        UsageCreate False, CacheUpsert ''gpt-4o-mini:talk:[]'']
   \<and> \<not> before (CacheUpsert ''gpt-4o-mini:talk:[]'') (UsageCreate False)
         (trace (snd (generateHighlightsCached plain_deps segments_json parse_ok (chat_says ''good'')
                 1000 ''talk'' [] None None empty_world)))
   \<and> before (UsageCreate False) (CacheUpsert ''gpt-4o-mini:talk:[]'')
         (trace (snd (generateHighlightsCached plain_deps segments_json parse_ok (chat_says ''good'')
                 1000 ''talk'' [] None None empty_world)))"
  by (simp add: generateHighlightsCached_def example_defs run_defs)

subsection \<open>Live entries and the outcome of each batch\<close>

lemma incrementHit_trace [simp]:
  "trace (incrementHit now h w) = trace w @ [CacheUpdate h]"
  by (simp add: incrementHit_def)


lemma findUnique_filter_neq:
  "h \<noteq> k \<Longrightarrow> findUnique h (filter (\<lambda>c. inputHash c \<noteq> k) rows) = findUnique h rows"
  by (induction rows) (auto simp: findUnique_def)





lemma cachedLive_delete:
  "cachedLive now h (delete k w) = (h \<noteq> k \<and> cachedLive now h w)"
  by (cases "h = k")
     (simp_all add: cachedLive_def delete_def emit_def findUnique_filter_other
        findUnique_filter_neq)













subsection \<open>A run with a repeated batch\<close>

lemma embeddingsHash_example:
  "embeddingsHash plain_deps unary_json (replicate 100 ''x'')
     \<noteq> embeddingsHash plain_deps unary_json (replicate 50 ''x'')"
proof -
  have "length (embeddingsHash plain_deps unary_json (replicate 100 ''x''))
          \<noteq> length (embeddingsHash plain_deps unary_json (replicate 50 ''x''))"
    by (simp add: embeddingsHash_def generateHash_def batchKey_def plain_deps_def unary_json_def)
  then show ?thesis by metis
qed

lemma embedBatch_outcome_miss:
  assumes absent: "findUnique (embeddingsHash d st batch) (aICache w) = None"
    and ok: "create batch = Inr r"
  shows "fst (embedBatch d st create now video user batch w) = Inr (data r)"
    and "outcomes (trace (snd (embedBatch d st create now video user batch w)))
           = outcomes (trace w) @ [ProviderCalled batch]"
    and "aICache (snd (embedBatch d st create now video user batch w))
           = aICache w @
             [\<lparr>c_type = ''embeddings'', inputHash = embeddingsHash d st batch, response = data r,
               c_model = ''text-embedding-3-small'',
               inputSize = Some (int (length (join '' '' batch))),
               outputSize = Some (int (length (stringify d (data r)))),
               createdAt = now, updatedAt = now, expiresAt = expiresAfter now (Some 180),
               hitCount = 0\<rparr>]"
proof -
  have a: "findUnique (generateHash (sha256 d) (batchKey (md5 d) st batch) ''text-embedding-3-small'')
             (aICache w) = None"
    using absent by (simp add: embeddingsHash_def)
  note g = get_miss [OF a, of now "''embeddings''"]
  have m: "fst (get (sha256 d) now ''embeddings'' (batchKey (md5 d) st batch)
                  ''text-embedding-3-small'' w) = None"
    by (simp add: g)
  note run = embedBatch_miss_ok [where create = create, OF m ok]
  show "fst (embedBatch d st create now video user batch w) = Inr (data r)"
    by (simp add: run)
  show "outcomes (trace (snd (embedBatch d st create now video user batch w)))
           = outcomes (trace w) @ [ProviderCalled batch]"
    by (simp add: run g outcomes_append)
  show "aICache (snd (embedBatch d st create now video user batch w))
           = aICache w @
             [\<lparr>c_type = ''embeddings'', inputHash = embeddingsHash d st batch, response = data r,
               c_model = ''text-embedding-3-small'',
               inputSize = Some (int (length (join '' '' batch))),
               outputSize = Some (int (length (stringify d (data r)))),
               createdAt = now, updatedAt = now, expiresAt = expiresAfter now (Some 180),
               hitCount = 0\<rparr>]"
    using a by (simp add: run g storeEntry_fresh embeddingsHash_def)
qed

lemma embedBatch_outcome_hit:
  assumes found: "findUnique (embeddingsHash d st batch) (aICache w) = Some entry"
    and live: "\<not> expired now entry"
  shows "fst (embedBatch d st create now video user batch w) = Inr (response entry)"
    and "outcomes (trace (snd (embedBatch d st create now video user batch w)))
           = outcomes (trace w) @ [ServedFromCache (embeddingsHash d st batch)]"
    and "map inputHash (aICache (snd (embedBatch d st create now video user batch w)))
           = map inputHash (aICache w)"
proof -
  have a: "findUnique (generateHash (sha256 d) (batchKey (md5 d) st batch) ''text-embedding-3-small'')
             (aICache w) = Some entry"
    using found by (simp add: embeddingsHash_def)
  note g = get_hit [OF a live, of "''embeddings''"]
  have m: "fst (get (sha256 d) now ''embeddings'' (batchKey (md5 d) st batch)
                  ''text-embedding-3-small'' w) = Some (response entry)"
    by (simp add: g)
  note run = embedBatch_hit [OF m]
  show "fst (embedBatch d st create now video user batch w) = Inr (response entry)"
    by (simp add: run)
  show "outcomes (trace (snd (embedBatch d st create now video user batch w)))
           = outcomes (trace w) @ [ServedFromCache (embeddingsHash d st batch)]"
    by (simp add: run g outcomes_append embeddingsHash_def)
  show "map inputHash (aICache (snd (embedBatch d st create now video user batch w)))
           = map inputHash (aICache w)"
    by (simp add: run g incrementHit_def map_hash_map_update)
qed

lemma findUnique_None_hashes:
  "findUnique h rows = None \<longleftrightarrow> h \<notin> set (map inputHash rows)"
  by (auto simp: findUnique_None_iff filter_empty_conv)

lemma runBatches_step:
  assumes "fst (body b w) = Inr es"
  shows "runBatches body (b # bs) acc w = runBatches body bs (acc @ es) (snd (body b w))"
  using assms by (cases "body b w") simp

text \<open>
  A run on 250 equal texts with an empty cache: the second batch has the fingerprint of
  the first and is served from the entry the first one stored, so the provider is called
  for the first and the third batch only, and the 250 embeddings come back in order.
\<close>

lemma repeated_batch_is_served_from_cache:
  "fst (generateEmbeddingsCached plain_deps unary_json embed_ok 0 (replicate 250 ''x'') None None
          empty_world) = Inr (replicate 250 [1])
   \<and> outcomes (trace (snd (generateEmbeddingsCached plain_deps unary_json embed_ok 0
                             (replicate 250 ''x'') None None empty_world)))
       = [ProviderCalled (replicate 100 ''x''),
          ServedFromCache (embeddingsHash plain_deps unary_json (replicate 100 ''x'')),
          ProviderCalled (replicate 50 ''x'')]"
proof -
  let ?t = "replicate 250 ''x''"
  let ?K = "embeddingsHash plain_deps unary_json"
  let ?body = "embedBatch plain_deps unary_json embed_ok 0 None None"
  let ?w0 = "empty_world :: real list list world"
  let ?w1 = "snd (?body (replicate 100 ''x'') ?w0)"
  let ?w2 = "snd (?body (replicate 100 ''x'') ?w1)"
  let ?w3 = "snd (?body (replicate 50 ''x'') ?w2)"
  let ?r = "\<lambda>n. \<lparr>data = map text_vector (replicate n ''x''), usage_prompt_tokens = Some 7\<rparr>"
  have u: "[0..<(length ?t - 0 + (batchSize - 1)) div batchSize] = [0, Suc 0, Suc (Suc 0)]"
    by (simp add: upt_rec batchSize_def)
  have bs: "batchesFrom ?t 0 = [replicate 100 ''x'', replicate 100 ''x'', replicate 50 ''x'']"
    unfolding batchesFrom_closed u by (simp add: slice_def batchSize_def)
  have ok: "embed_ok (replicate n ''x'') = Inr (?r n)" for n
    by (simp add: embed_ok_def)
  have a0: "findUnique (?K (replicate 100 ''x'')) (aICache ?w0) = None"
    by (simp add: findUnique_def empty_world_def)
  note s1 = embedBatch_outcome_miss [where create = embed_ok, OF a0 ok, of 0 None None]
  have f1: "findUnique (?K (replicate 100 ''x'')) (aICache ?w1)
              = Some \<lparr>c_type = ''embeddings'', inputHash = ?K (replicate 100 ''x''),
                      response = data (?r 100), c_model = ''text-embedding-3-small'',
                      inputSize = Some (int (length (join '' '' (replicate 100 ''x'')))),
                      outputSize = Some (int (length (stringify plain_deps (data (?r 100))))),
                      createdAt = 0, updatedAt = 0, expiresAt = expiresAfter 0 (Some 180),
                      hitCount = 0\<rparr>"
    unfolding s1(3) by (simp add: findUnique_def empty_world_def)
  have live: "\<not> expired 0 \<lparr>c_type = ''embeddings'', inputHash = ?K (replicate 100 ''x''),
                      response = data (?r 100), c_model = ''text-embedding-3-small'',
                      inputSize = Some (int (length (join '' '' (replicate 100 ''x'')))),
                      outputSize = Some (int (length (stringify plain_deps (data (?r 100))))),
                      createdAt = 0, updatedAt = 0, expiresAt = expiresAfter 0 (Some 180),
                      hitCount = 0\<rparr>"
    by (simp add: expired_def expiresAfter_def)
  note s2 = embedBatch_outcome_hit [OF f1 live, of embed_ok None None]
  have a2: "findUnique (?K (replicate 50 ''x'')) (aICache ?w2) = None"
    unfolding findUnique_None_hashes s2(3) s1(3)
    using embeddingsHash_example by (simp add: empty_world_def)
  note s3 = embedBatch_outcome_miss [where create = embed_ok, OF a2 ok, of 0 None None]
  have "runBatches ?body [replicate 100 ''x'', replicate 100 ''x'', replicate 50 ''x''] [] ?w0
          = runBatches ?body [replicate 100 ''x'', replicate 50 ''x''] ([] @ data (?r 100)) ?w1"
    by (rule runBatches_step [where body = ?body, OF s1(1)])
  also have "\<dots> = runBatches ?body [replicate 50 ''x''] (([] @ data (?r 100)) @ data (?r 100)) ?w2"
    using runBatches_step [where body = ?body, OF s2(1)] by simp
  also have "\<dots> = runBatches ?body [] ((([] @ data (?r 100)) @ data (?r 100)) @ data (?r 50)) ?w3"
    by (rule runBatches_step [where body = ?body, OF s3(1)])
  finally have run: "runBatches ?body (batchesFrom ?t 0) [] ?w0
               = (Inr (data (?r 100) @ data (?r 100) @ data (?r 50)), ?w3)"
    unfolding bs by simp
  have res: "data (?r 100) @ data (?r 100) @ data (?r 50) = replicate 250 [1]"
    by (simp add: text_vector_def replicate_add [symmetric])
  have out: "outcomes (trace ?w3)
       = [ProviderCalled (replicate 100 ''x''), ServedFromCache (?K (replicate 100 ''x'')),
          ProviderCalled (replicate 50 ''x'')]"
    unfolding s3(2) s2(2) s1(2) by (simp add: empty_world_def)
  show ?thesis
    using out res by (simp add: generateEmbeddingsCached_runBatches run)
qed

end
